theory Spec2Isabelle
  imports Complex_Main "HOL-Library.Sublist"
begin

section \<open>Errors\<close>

text \<open>
  A JavaScript exception value. Every error the program constructs itself is
  \<^verbatim>\<open>new Error(msg)\<close>, which has no \<^verbatim>\<open>response\<close> property; an error thrown by the HTTP
  client (axios) carries the HTTP response. The fields of the response are the ones the program
  reads: the status, the rate-limit headers (absent header = \<open>None\<close>), the
  \<^verbatim>\<open>data.message\<close> text and whether some entry of \<^verbatim>\<open>data.errors\<close> says
  "already exists". The program's own messages are Chinese text; they are rendered here in
  ASCII, and interpolated values are appended as in the template strings.
\<close>

record response =
  status :: nat
  ratelimit_remaining :: "nat option"
  ratelimit_limit :: "nat option"
  ratelimit_reset :: "nat option"
  data_message :: "string option"
  errors_already_exists :: bool

record js_error =
  message :: string
  response :: "response option"

definition Error :: "string \<Rightarrow> js_error" where
  "Error msg = \<lparr> message = msg, response = None \<rparr>"

section \<open>Repository State Store (StateManager)\<close>

text \<open>
  One record of \<^verbatim>\<open>repos.json\<close>, with the fixed schema written by
  \<^verbatim>\<open>create-repos-list.js\<close>. Timestamps are the millisecond clock value that
  \<^verbatim>\<open>new Date().toISOString()\<close> renders.
\<close>

record repo =
  name :: string
  branch :: string
  transferred :: bool
  processing :: bool
  created_at :: "nat option"
  pushed_at :: "nat option"
  error :: "string option"
  retry_count :: int

text \<open>
  The \<^verbatim>\<open>updates\<close> object of \<^verbatim>\<open>updateRepoStatus\<close>: each key is either absent
  (\<open>None\<close>) or present with a value. Only the keys the program ever passes are modelled.
\<close>

record updates =
  u_transferred :: "bool option"
  u_processing :: "bool option"
  u_created_at :: "nat option option"
  u_pushed_at :: "nat option option"
  u_error :: "string option option"
  u_retry_count :: "int option"

definition no_updates :: updates where
  "no_updates = \<lparr> u_transferred = None, u_processing = None, u_created_at = None,
                  u_pushed_at = None, u_error = None, u_retry_count = None \<rparr>"

text \<open>
  The backing file: its parsed content (\<open>None\<close> when the file is missing or is not
  JSON) and whether writing it succeeds.
\<close>

record store =
  content :: "repo list option"
  writable :: bool

definition loadRepos :: "store \<Rightarrow> js_error + repo list" where
  "loadRepos st =
     (case content st of
        None \<Rightarrow> Inl (Error ''cannot read repos.json'')
      | Some repos \<Rightarrow> Inr repos)"

definition saveRepos :: "repo list \<Rightarrow> store \<Rightarrow> js_error + store" where
  "saveRepos repos st =
     (if writable st then Inr (st\<lparr> content := Some repos \<rparr>)
      else Inl (Error ''cannot save repos.json''))"

definition is_pending :: "repo \<Rightarrow> bool" where
  "is_pending r \<longleftrightarrow> \<not> transferred r \<and> \<not> processing r \<and> retry_count r < 3"

definition getPendingRepos :: "store \<Rightarrow> js_error + repo list" where
  "getPendingRepos st =
     (case loadRepos st of
        Inl e \<Rightarrow> Inl e
      | Inr repos \<Rightarrow> Inr (filter is_pending repos))"

text \<open>\<^verbatim>\<open>Array.prototype.findIndex\<close>: the first index whose element satisfies the test.\<close>

fun findIndex :: "('a \<Rightarrow> bool) \<Rightarrow> 'a list \<Rightarrow> nat option" where
  "findIndex p [] = None"
| "findIndex p (x # xs) =
     (if p x then Some 0 else map_option Suc (findIndex p xs))"

text \<open>\<^verbatim>\<open>Object.assign(repos[repoIndex], updates)\<close>: every present key overwrites.\<close>

definition object_assign :: "repo \<Rightarrow> updates \<Rightarrow> repo" where
  "object_assign r u =
     r\<lparr> transferred := (case u_transferred u of None \<Rightarrow> transferred r | Some v \<Rightarrow> v),
        processing := (case u_processing u of None \<Rightarrow> processing r | Some v \<Rightarrow> v),
        created_at := (case u_created_at u of None \<Rightarrow> created_at r | Some v \<Rightarrow> v),
        pushed_at := (case u_pushed_at u of None \<Rightarrow> pushed_at r | Some v \<Rightarrow> v),
        error := (case u_error u of None \<Rightarrow> error r | Some v \<Rightarrow> v),
        retry_count := (case u_retry_count u of None \<Rightarrow> retry_count r | Some v \<Rightarrow> v) \<rparr>"

definition update_record :: "nat \<Rightarrow> updates \<Rightarrow> repo \<Rightarrow> repo" where
  "update_record now u r =
     (let r1 = object_assign r u in
      if u_transferred u = Some True
      then r1\<lparr> processing := False, error := None, pushed_at := Some now \<rparr>
      else r1)"

definition updateRepoStatus :: "nat \<Rightarrow> string \<Rightarrow> updates \<Rightarrow> store \<Rightarrow> js_error + store" where
  "updateRepoStatus now repoName u st =
     (case loadRepos st of
        Inl e \<Rightarrow> Inl e
      | Inr repos \<Rightarrow>
          (case findIndex (\<lambda>r. name r = repoName) repos of
             None \<Rightarrow> Inl (Error (''repository not found: '' @ repoName))
           | Some i \<Rightarrow> saveRepos (repos[i := update_record now u (repos ! i)]) st))"

definition markAsProcessing :: "nat \<Rightarrow> string \<Rightarrow> store \<Rightarrow> js_error + store" where
  "markAsProcessing now repoName st =
     updateRepoStatus now repoName
       (no_updates\<lparr> u_processing := Some True, u_error := Some None \<rparr>) st"

definition markAsCompleted :: "nat \<Rightarrow> string \<Rightarrow> nat option \<Rightarrow> store \<Rightarrow> js_error + store" where
  "markAsCompleted now repoName createdAt st =
     updateRepoStatus now repoName
       (no_updates\<lparr> u_transferred := Some True, u_processing := Some False,
                    u_error := Some None, u_created_at := Some createdAt,
                    u_pushed_at := Some (Some now) \<rparr>) st"

definition markAsError :: "nat \<Rightarrow> string \<Rightarrow> string \<Rightarrow> store \<Rightarrow> js_error + store" where
  "markAsError now repoName errorMessage st =
     (case loadRepos st of
        Inl e \<Rightarrow> Inl e
      | Inr repos \<Rightarrow>
          (let retryCount = (case find (\<lambda>r. name r = repoName) repos of
                               Some r \<Rightarrow> retry_count r + 1
                             | None \<Rightarrow> 1)
           in updateRepoStatus now repoName
                (no_updates\<lparr> u_processing := Some False, u_error := Some (Some errorMessage),
                             u_retry_count := Some retryCount \<rparr>) st))"

definition clearError :: "nat \<Rightarrow> string \<Rightarrow> store \<Rightarrow> js_error + store" where
  "clearError now repoName st =
     updateRepoStatus now repoName
       (no_updates\<lparr> u_error := Some None, u_retry_count := Some 0 \<rparr>) st"

definition resetProcessingRepos :: "store \<Rightarrow> js_error + (nat \<times> store)" where
  "resetProcessingRepos st =
     (case loadRepos st of
        Inl e \<Rightarrow> Inl e
      | Inr repos \<Rightarrow>
          (let resetCount = length (filter processing repos);
               repos' = map (\<lambda>r. if processing r then r\<lparr> processing := False \<rparr> else r) repos
           in if resetCount > 0
              then (case saveRepos repos' st of
                      Inl e \<Rightarrow> Inl e
                    | Inr st' \<Rightarrow> Inr (resetCount, st'))
              else Inr (resetCount, st)))"

text \<open>The record invariant of the data model, and its lifting to the stored table.\<close>

definition record_ok :: "repo \<Rightarrow> bool" where
  "record_ok r \<longleftrightarrow> (transferred r \<longrightarrow> \<not> processing r \<and> error r = None)"

definition table_ok :: "store \<Rightarrow> bool" where
  "table_ok st \<longleftrightarrow> (case content st of None \<Rightarrow> True | Some repos \<Rightarrow> list_all record_ok repos)"

text \<open>The record a store operation on \<open>repoName\<close> acts on: the first one with that name.\<close>

definition target :: "string \<Rightarrow> store \<Rightarrow> repo option" where
  "target repoName st =
     (case content st of None \<Rightarrow> None | Some repos \<Rightarrow> find (\<lambda>r. name r = repoName) repos)"

text \<open>Example tables used to instantiate the statements about the store.\<close>

definition example_repo :: repo where
  "example_repo = \<lparr> name = ''alpha'', branch = ''master'', transferred = False, processing = False,
      created_at = None, pushed_at = None, error = Some ''push failed'', retry_count = 3 \<rparr>"

definition migrated_repo :: repo where
  "migrated_repo = example_repo\<lparr> transferred := True, error := None, pushed_at := Some 1000 \<rparr>"

definition store_of :: "repo list \<Rightarrow> store" where
  "store_of repos = \<lparr> content = Some repos, writable = True \<rparr>"

section \<open>Size Threshold Utility (LFSManager.parseSize)\<close>

text \<open>
  Strings are sequences of code units; only code units up to 255 are represented, so the
  white-space class \<^verbatim>\<open>\s\<close> is its part in that range: TAB, LF, VT, FF, CR, SPACE and
  NBSP. \<^verbatim>\<open>\d\<close> is the ASCII digits.
\<close>

definition is_digit :: "char \<Rightarrow> bool" where
  "is_digit c \<longleftrightarrow> 48 \<le> (of_char c :: nat) \<and> (of_char c :: nat) \<le> 57"

definition is_space :: "char \<Rightarrow> bool" where
  "is_space c \<longleftrightarrow> (of_char c :: nat) \<in> {9, 10, 11, 12, 13, 32, 160}"

text \<open>\<^verbatim>\<open>toUpperCase\<close> on the ASCII letters; the other code units do not matter for the units table.\<close>

definition to_upper :: "char \<Rightarrow> char" where
  "to_upper c =
     (if 97 \<le> (of_char c :: nat) \<and> (of_char c :: nat) \<le> 122
      then char_of (of_char c - 32 :: nat)
      else c)"

definition toUpperCase :: "string \<Rightarrow> string" where
  "toUpperCase s = map to_upper s"

definition digit_value :: "char \<Rightarrow> nat" where
  "digit_value c = of_char c - 48"

definition digits_value :: "string \<Rightarrow> nat" where
  "digits_value ds = foldl (\<lambda>a c. 10 * a + digit_value c) 0 ds"

text \<open>The table \<^verbatim>\<open>units\<close>.\<close>

definition units :: "string \<Rightarrow> nat option" where
  "units u =
     (if u = ''B'' then Some 1
      else if u = ''KB'' then Some 1024
      else if u = ''MB'' then Some (1024 * 1024)
      else if u = ''GB'' then Some (1024 * 1024 * 1024)
      else None)"

text \<open>
  The match of \<^verbatim>\<open>/^(\d+(?:\.\d+)?)\s*(B|KB|MB|GB)$/i\<close>: the two captured groups, the number
  split into its integer digits and its fraction digits (empty when the optional group does
  not take part). The expression has one way to match at most: the digit runs and the
  white-space run are followed by something outside their class, so they are maximal.
\<close>

definition match_size :: "string \<Rightarrow> ((string \<times> string) \<times> string) option" where
  "match_size sizeStr =
     (let ds = takeWhile is_digit sizeStr;
          r1 = dropWhile is_digit sizeStr;
          fs = (case r1 of
                  c # t \<Rightarrow> if c = CHR ''.'' then takeWhile is_digit t else []
                | [] \<Rightarrow> []);
          r2 = (if fs = [] then r1 else dropWhile is_digit (tl r1));
          unit = dropWhile is_space r2
      in if ds \<noteq> [] \<and> toUpperCase unit \<in> set [''B'', ''KB'', ''MB'', ''GB'']
         then Some ((ds, fs), unit)
         else None)"

text \<open>
  \<^verbatim>\<open>parseFloat\<close> of a matched number, as the exact value of the decimal numeral. The
  program computes in IEEE doubles, which round a numeral that is not a binary fraction of at
  most 53 bits; the rounding is not part of this model.
\<close>

definition parseFloat :: "string \<times> string \<Rightarrow> rat" where
  "parseFloat num = of_nat (digits_value (fst num)) + of_nat (digits_value (snd num)) / 10 ^ length (snd num)"

definition parseSize :: "string \<Rightarrow> js_error + rat" where
  "parseSize sizeStr =
     (case match_size sizeStr of
        None \<Rightarrow> Inl (Error (''invalid file size format: '' @ sizeStr))
      | Some (num, unit) \<Rightarrow> Inr (parseFloat num * of_nat (the (units (toUpperCase unit)))))"

section \<open>The process and its environment\<close>

text \<open>
  The child processes the program starts with \<^verbatim>\<open>execSync\<close>, one constructor per command
  line:
  \<^item> \<open>RevListAll\<close>: \<^verbatim>\<open>git rev-list --all\<close>
  \<^item> \<open>LsTree c\<close>: \<^verbatim>\<open>git ls-tree -r -l c\<close>
  \<^item> \<open>LfsInstall\<close>: \<^verbatim>\<open>git lfs install\<close>
  \<^item> \<open>LfsTrack f\<close>: \<^verbatim>\<open>git lfs track "f"\<close>; \<open>LfsTrackList\<close>: \<^verbatim>\<open>git lfs track\<close>
  \<^item> \<open>AddGitattributes\<close>: \<^verbatim>\<open>git add .gitattributes\<close>
  \<^item> \<open>CommitGitattributes\<close>: \<^verbatim>\<open>git commit -m "Add .gitattributes for LFS"\<close>
  \<^item> \<open>ResetSoftHead\<close>: \<^verbatim>\<open>git reset --soft HEAD\<close>
  \<^item> \<open>MigrateAbove n\<close>: \<^verbatim>\<open>git lfs migrate import --above=nMB --everything --yes\<close>, where
    \<open>n\<close> is the result of \<^verbatim>\<open>parseInt\<close> (\<open>None\<close> for \<^verbatim>\<open>NaN\<close>)
  \<^item> \<open>MigrateInclude fs\<close>: \<^verbatim>\<open>git lfs migrate import --include="f1,f2,..." --everything --yes\<close>
  \<^item> \<open>LfsLsFiles\<close>: \<^verbatim>\<open>git lfs ls-files\<close>
  \<^item> \<open>RmCached f\<close>: \<^verbatim>\<open>git rm --cached "f"\<close>; \<open>AddFile f\<close>: \<^verbatim>\<open>git add "f"\<close>
  \<^item> \<open>LsFilesStage f\<close>: \<^verbatim>\<open>git ls-files -s "f"\<close>
  \<^item> \<open>LfsFetchAll\<close>: \<^verbatim>\<open>git lfs fetch --all\<close>
  \<^item> \<open>CloneBranch b n\<close>: \<^verbatim>\<open>git clone --single-branch --branch b <bitbucket url of n> <path of n>\<close>
  \<^item> \<open>RemoteAddGithub n\<close>: \<^verbatim>\<open>git remote add github <github url of n>\<close>
  \<^item> \<open>PushGithub b\<close>: \<^verbatim>\<open>git push github b\<close>; \<open>LfsPushAll\<close>: \<^verbatim>\<open>git lfs push github --all\<close>
  \<^item> \<open>GitVersion\<close>, \<open>LfsVersion\<close>: \<^verbatim>\<open>git --version\<close>, \<^verbatim>\<open>git lfs version\<close>
\<close>

datatype cmd =
    RevListAll
  | LsTree string
  | LfsInstall
  | LfsTrack string
  | LfsTrackList
  | AddGitattributes
  | CommitGitattributes
  | ResetSoftHead
  | MigrateAbove "int option"
  | MigrateInclude "string list"
  | LfsLsFiles
  | RmCached string
  | AddFile string
  | LsFilesStage string
  | LfsFetchAll
  | CloneBranch string string
  | RemoteAddGithub string
  | PushGithub string
  | LfsPushAll
  | GitVersion
  | LfsVersion

text \<open>The requests sent to the GitHub REST API.\<close>

datatype api_call =
    GetRepo string
  | GetContents string
  | PostRepo string
  | PutLfs string
  | DeleteRepo string

text \<open>
  What the process does to the outside, in order: commands, API requests, file writes and
  removals, and waits (\<^verbatim>\<open>delay(ms)\<close>).
\<close>

datatype event =
    Exec cmd
  | Api api_call
  | WriteFile string string
  | RemoveTree string
  | Delay nat

text \<open>One entry of \<^verbatim>\<open>lfs-settings.json\<close>; an absent key is \<open>None\<close> (or \<open>False\<close>).\<close>

record lfs_config =
  cfg_files :: "string list option"
  cfg_patterns :: "string list option"
  cfg_autoDetect :: bool

record migrator_stats =
  processed :: nat
  succeeded :: nat
  failed :: nat

text \<open>
  The state the functions below read and change. The outside world is a set of oracles; the
  ones whose answer can change while the program runs (command output, file access, API
  faults) take the number of events that have happened so far.
  \<^item> \<open>cwd\<close>, \<open>dirs\<close>: the process working directory and the directories that exist
    (\<^verbatim>\<open>process.chdir\<close> throws on any other path);
  \<^item> \<open>trace\<close>: the events so far, oldest first;
  \<^item> \<open>exec_out\<close>: standard output of a command, or the message of the error
    \<^verbatim>\<open>execSync\<close> throws when the command fails;
  \<^item> \<open>fs_access\<close>: whether \<^verbatim>\<open>fs.access(path)\<close> succeeds;
  \<^item> \<open>glob_out\<close>: the matches of \<^verbatim>\<open>glob(pattern, {cwd})\<close>, \<open>None\<close> when it throws;
  \<^item> \<open>glob_files\<close>: the result of \<^verbatim>\<open>glob('**/*', {cwd, nodir: true, ignore: autoDetectIgnore})\<close>;
  \<^item> \<open>stat_size\<close>: \<^verbatim>\<open>fs.stat(path).size\<close>, \<open>None\<close> when it throws;
  \<^item> \<open>write_ok\<close>: whether \<^verbatim>\<open>fs.writeFile(path, ...)\<close> succeeds;
  \<^item> \<open>settings_file\<close>: the \<^verbatim>\<open>repositories\<close> table of the parsed settings file, \<open>None\<close> when
    the file is missing or unreadable; \<open>settings\<close>: the field \<^verbatim>\<open>this.settings\<close> of the
    \<^verbatim>\<open>LFSManager\<close> (\<open>None\<close> is \<^verbatim>\<open>null\<close>);
  \<^item> \<open>tempDir\<close>: the field of \<^verbatim>\<open>GitOperations\<close>;
  \<^item> \<open>repos_store\<close>: the file \<^verbatim>\<open>repos.json\<close>;
  \<^item> \<open>github\<close>: the repositories of the destination account, each with whether it is empty;
  \<^item> \<open>api_fault\<close>: the error with which the next API request fails whatever the state of the
    account (network failure, rate limit), if any;
  \<^item> \<open>clock\<close>: \<^verbatim>\<open>Date.now()\<close>; \<open>stats\<close>: the field of \<^verbatim>\<open>RepositoryMigrator\<close>.
\<close>

record world =
  cwd :: string
  dirs :: "string \<Rightarrow> bool"
  trace :: "event list"
  exec_out :: "nat \<Rightarrow> cmd \<Rightarrow> string + string"
  fs_access :: "nat \<Rightarrow> string \<Rightarrow> bool"
  glob_out :: "string \<Rightarrow> string \<Rightarrow> string list option"
  glob_files :: "string \<Rightarrow> string list option"
  stat_size :: "string \<Rightarrow> nat option"
  write_ok :: "string \<Rightarrow> bool"
  settings_file :: "(string \<Rightarrow> lfs_config option) option"
  settings :: "(string \<Rightarrow> lfs_config option) option"
  tempDir :: string
  repos_store :: store
  github :: "string \<Rightarrow> bool option"
  api_fault :: "nat \<Rightarrow> js_error option"
  clock :: nat
  stats :: migrator_stats

definition chdir :: "string \<Rightarrow> world \<Rightarrow> js_error + world" where
  "chdir p w =
     (if dirs w p then Inr (w\<lparr> cwd := p \<rparr>)
      else Inl (Error (''ENOENT: no such file or directory, chdir '' @ p)))"

definition execSync :: "cmd \<Rightarrow> world \<Rightarrow> (string + string) \<times> world" where
  "execSync c w = (exec_out w (length (trace w)) c, w\<lparr> trace := trace w @ [Exec c] \<rparr>)"

definition delay :: "nat \<Rightarrow> world \<Rightarrow> world" where
  "delay ms w = w\<lparr> clock := clock w + ms, trace := trace w @ [Delay ms] \<rparr>"

text \<open>\<^verbatim>\<open>path.join(a, b)\<close>, without the normalisation of dots and repeated separators.\<close>

definition path_join :: "string \<Rightarrow> string \<Rightarrow> string" where
  "path_join a b = a @ ''/'' @ b"

section \<open>String helpers of the JavaScript library\<close>

definition js_trim :: "string \<Rightarrow> string" where
  "js_trim s = rev (dropWhile is_space (rev (dropWhile is_space s)))"

text \<open>\<^verbatim>\<open>s.split(d)\<close> for a one-character separator: \<open>split_on d [] s\<close>.\<close>

fun split_on :: "char \<Rightarrow> string \<Rightarrow> string \<Rightarrow> string list" where
  "split_on d cur [] = [cur]"
| "split_on d cur (c # cs) =
     (if c = d then cur # split_on d [] cs else split_on d (cur @ [c]) cs)"

text \<open>
  \<^verbatim>\<open>s.split(/\s+/)\<close> for a trimmed, non-empty string: the maximal runs of characters that
  are not white space, \<open>split_ws [] s\<close>.
\<close>

fun split_ws :: "string \<Rightarrow> string \<Rightarrow> string list" where
  "split_ws cur [] = (if cur = [] then [] else [cur])"
| "split_ws cur (c # cs) =
     (if is_space c then (if cur = [] then split_ws [] cs else cur # split_ws [] cs)
      else split_ws (cur @ [c]) cs)"

fun join_with :: "string \<Rightarrow> string list \<Rightarrow> string" where
  "join_with sep [] = []"
| "join_with sep [x] = x"
| "join_with sep (x # y # ys) = x @ sep @ join_with sep (y # ys)"

text \<open>
  \<^verbatim>\<open>parseInt(s, 10)\<close>: leading white space, an optional sign and the longest run of digits;
  \<open>None\<close> is \<^verbatim>\<open>NaN\<close>.
\<close>

definition js_parseInt :: "string \<Rightarrow> int option" where
  "js_parseInt s =
     (let t = dropWhile is_space s;
          neg = (t \<noteq> [] \<and> hd t = CHR ''-'');
          u = (if t \<noteq> [] \<and> (hd t = CHR ''-'' \<or> hd t = CHR ''+'') then tl t else t);
          ds = takeWhile is_digit u
      in if ds = [] then None
         else Some (if neg then - int (digits_value ds) else int (digits_value ds)))"

text \<open>\<^verbatim>\<open>s.replace(pat, rep)\<close> with a string pattern: the first occurrence only.\<close>

fun replace_first :: "string \<Rightarrow> string \<Rightarrow> string \<Rightarrow> string" where
  "replace_first pat rep [] = (if pat = [] then rep else [])"
| "replace_first pat rep (c # cs) =
     (if prefix pat (c # cs) then rep @ drop (length pat) (c # cs)
      else c # replace_first pat rep cs)"

text \<open>
  A JavaScript \<^verbatim>\<open>Set\<close> of strings is the list of its elements in insertion order;
  \<open>set_add\<close> is \<^verbatim>\<open>Set.prototype.add\<close> and \<open>set_add_all s xs\<close> adds the elements of \<open>xs\<close>
  one after the other (\<^verbatim>\<open>xs.forEach(x => s.add(x))\<close>, \<^verbatim>\<open>new Set([...])\<close>).
\<close>

definition set_add :: "string list \<Rightarrow> string \<Rightarrow> string list" where
  "set_add s x = (if x \<in> set s then s else s @ [x])"

definition set_add_all :: "string list \<Rightarrow> string list \<Rightarrow> string list" where
  "set_add_all s xs = foldl set_add s xs"

section \<open>LFS manager (LFSManager)\<close>

text \<open>
  \<^verbatim>\<open>CONFIG.lfs.defaultThreshold\<close>. The list \<^verbatim>\<open>CONFIG.lfs.autoDetectIgnore\<close> only reaches
  the \<^verbatim>\<open>glob\<close> call whose result is the oracle \<open>glob_files\<close>.
\<close>

definition defaultThreshold :: string where
  "defaultThreshold = ''50MB''"

definition getDefaultThreshold :: string where
  "getDefaultThreshold = defaultThreshold"

datatype lfs_mode = Configured | AutoDetect | Existing

definition loadSettings :: "world \<Rightarrow> world" where
  "loadSettings w =
     (case settings_file w of
        Some repositories \<Rightarrow> w\<lparr> settings := Some repositories \<rparr>
      | None \<Rightarrow> w\<lparr> settings := Some (\<lambda>repoName. None) \<rparr>)"

definition hasLFSConfig :: "string \<Rightarrow> world \<Rightarrow> bool" where
  "hasLFSConfig repoName w =
     (case settings w of None \<Rightarrow> False | Some repositories \<Rightarrow> repositories repoName \<noteq> None)"

definition getRepoLFSConfig :: "string \<Rightarrow> world \<Rightarrow> lfs_config option" where
  "getRepoLFSConfig repoName w =
     (case settings w of None \<Rightarrow> None | Some repositories \<Rightarrow> repositories repoName)"

definition getLFSMode :: "string \<Rightarrow> world \<Rightarrow> lfs_mode" where
  "getLFSMode repoName w = (if hasLFSConfig repoName w then Configured else AutoDetect)"

text \<open>The argument \<open>threshold\<close> is \<open>None\<close> for \<^verbatim>\<open>null\<close>; the empty string is falsy too.\<close>

definition isFileOversized :: "string \<Rightarrow> string option \<Rightarrow> world \<Rightarrow> bool" where
  "isFileOversized filePath threshold w =
     (case stat_size w filePath of
        None \<Rightarrow> False
      | Some sz \<Rightarrow>
          (case parseSize (case threshold of
                             None \<Rightarrow> getDefaultThreshold
                           | Some t \<Rightarrow> if t = [] then getDefaultThreshold else t) of
             Inl e \<Rightarrow> False
           | Inr thresholdBytes \<Rightarrow> of_nat sz > thresholdBytes))"

definition autoDetectLFSFiles :: "string \<Rightarrow> world \<Rightarrow> string list" where
  "autoDetectLFSFiles repoPath w =
     (let threshold = getDefaultThreshold in
      case glob_files w repoPath of
        None \<Rightarrow> []
      | Some allFiles \<Rightarrow>
          filter (\<lambda>file. isFileOversized (path_join repoPath file) (Some threshold) w) allFiles)"

subsection \<open>History scanner\<close>

text \<open>
  One line of \<^verbatim>\<open>git ls-tree -r -l\<close> (\<^verbatim>\<open><mode> <type> <hash> <size> <filename>\<close>): the file
  name the loop body adds to the set, if it adds one. A size that does not parse is \<^verbatim>\<open>NaN\<close>,
  and \<^verbatim>\<open>NaN > threshold\<close> is false.
\<close>

definition large_in_line :: "rat \<Rightarrow> string \<Rightarrow> string option" where
  "large_in_line threshold line =
     (if js_trim line = [] then None
      else
        (let parts = split_ws [] (js_trim line) in
         if length parts \<ge> 5
         then (case js_parseInt (parts ! 3) of
                 None \<Rightarrow> None
               | Some sz \<Rightarrow>
                   if of_int sz > threshold then Some (join_with '' '' (drop 4 parts)) else None)
         else None))"

definition scan_ls_tree :: "rat \<Rightarrow> string \<Rightarrow> string list \<Rightarrow> string list" where
  "scan_ls_tree threshold lsTreeOutput largeFiles =
     foldl (\<lambda>acc line. case large_in_line threshold line of
                          None \<Rightarrow> acc
                        | Some filename \<Rightarrow> set_add acc filename)
       largeFiles (split_on CHR 0x0A [] (js_trim lsTreeOutput))"

text \<open>
  The loop \<^verbatim>\<open>for (let i = 0; i < maxCommits; i++)\<close> over \<^verbatim>\<open>commits[i]\<close>, as a recursion
  over the first \<open>maxCommits\<close> commits. A failing \<^verbatim>\<open>ls-tree\<close> is caught and the loop continues.
\<close>

fun scan_commits :: "rat \<Rightarrow> string list \<Rightarrow> string list \<Rightarrow> world \<Rightarrow> string list \<times> world" where
  "scan_commits threshold [] largeFiles w = (largeFiles, w)"
| "scan_commits threshold (commit # rest) largeFiles w =
     (case execSync (LsTree commit) w of
        (Inl commitError, w') \<Rightarrow> scan_commits threshold rest largeFiles w'
      | (Inr lsTreeOutput, w') \<Rightarrow>
          scan_commits threshold rest (scan_ls_tree threshold lsTreeOutput largeFiles) w')"

definition rev_list_commits :: "string \<Rightarrow> string list" where
  "rev_list_commits allCommits =
     filter (\<lambda>commit. js_trim commit \<noteq> []) (split_on CHR 0x0A [] (js_trim allCommits))"

text \<open>The \<^verbatim>\<open>try\<close> and \<^verbatim>\<open>catch\<close> blocks of \<^verbatim>\<open>detectLargeFilesInHistory\<close>.\<close>

definition history_scan :: "rat \<Rightarrow> string \<Rightarrow> world \<Rightarrow> string list \<times> world" where
  "history_scan threshold repoPath w =
     (case chdir repoPath w of
        Inl e \<Rightarrow> ([], w)
      | Inr w1 \<Rightarrow>
          (case execSync RevListAll w1 of
             (Inl e, w2) \<Rightarrow> ([], w2)
           | (Inr allCommits, w2) \<Rightarrow>
               (let commits = rev_list_commits allCommits;
                    maxCommits = min (length commits) 50
                in scan_commits threshold (take maxCommits commits) [] w2)))"

definition detectLargeFilesInHistory :: "string \<Rightarrow> world \<Rightarrow> (js_error + string list) \<times> world" where
  "detectLargeFilesInHistory repoPath w =
     (let originalCwd = cwd w in
      case parseSize getDefaultThreshold of
        Inl e \<Rightarrow> (Inl e, w)
      | Inr threshold \<Rightarrow>
          (let (largeFiles, w1) = history_scan threshold repoPath w in
           case chdir originalCwd w1 of
             Inl e \<Rightarrow> (Inl e, w1)
           | Inr w2 \<Rightarrow> (Inr largeFiles, w2)))"

subsection \<open>Configuration resolver\<close>

record scan_result =
  files :: "string list"
  historyFiles :: "string list"
  allFiles :: "string list"
  mode :: lfs_mode
  hasConfig :: bool

text \<open>
  The loop over \<^verbatim>\<open>repoConfig.files\<close>: a file that can be accessed goes to \<open>lfsFiles\<close>, the
  others to \<open>historyFiles\<close>.
\<close>

definition scan_config_files ::
  "string \<Rightarrow> world \<Rightarrow> string list \<Rightarrow> string list \<times> string list \<Rightarrow> string list \<times> string list" where
  "scan_config_files repoPath w configFiles sets =
     foldl (\<lambda>(lfsFiles, historyFiles) file.
              if fs_access w (length (trace w)) (path_join repoPath file)
              then (set_add lfsFiles file, historyFiles)
              else (lfsFiles, set_add historyFiles file))
       sets configFiles"

definition scan_config_patterns :: "string \<Rightarrow> world \<Rightarrow> string list \<Rightarrow> string list \<Rightarrow> string list" where
  "scan_config_patterns repoPath w patterns lfsFiles =
     foldl (\<lambda>acc pattern. case glob_out w repoPath pattern of
                             None \<Rightarrow> acc
                           | Some matches \<Rightarrow> set_add_all acc matches)
       lfsFiles patterns"

definition scan_configured :: "string \<Rightarrow> lfs_config \<Rightarrow> world \<Rightarrow> string list \<times> string list" where
  "scan_configured repoPath repoConfig w =
     (let (lfsFiles, historyFiles) =
            (case cfg_files repoConfig of
               None \<Rightarrow> ([], [])
             | Some configFiles \<Rightarrow> scan_config_files repoPath w configFiles ([], []));
          lfsFiles1 = (case cfg_patterns repoConfig of
                         None \<Rightarrow> lfsFiles
                       | Some patterns \<Rightarrow> scan_config_patterns repoPath w patterns lfsFiles);
          lfsFiles2 = (if cfg_autoDetect repoConfig
                       then set_add_all lfsFiles1 (autoDetectLFSFiles repoPath w)
                       else lfsFiles1)
      in (lfsFiles2, historyFiles))"

definition scanLFSFiles :: "string \<Rightarrow> string \<Rightarrow> world \<Rightarrow> scan_result \<times> world" where
  "scanLFSFiles repoPath repoName w =
     (let mode = getLFSMode repoName w;
          repoConfig = getRepoLFSConfig repoName w;
          (lfsFiles, historyFiles) =
            (case repoConfig of
               Some c \<Rightarrow>
                 if mode = Configured then scan_configured repoPath c w
                 else (set_add_all [] (autoDetectLFSFiles repoPath w), [])
             | None \<Rightarrow> (set_add_all [] (autoDetectLFSFiles repoPath w), []));
          (history, w1) = detectLargeFilesInHistory repoPath w;
          historyFiles1 = (case history of
                             Inl e \<Rightarrow> historyFiles
                           | Inr historyLargeFiles \<Rightarrow> set_add_all historyFiles historyLargeFiles);
          allLfsFiles = set_add_all [] (lfsFiles @ historyFiles1)
      in (\<lparr> files = lfsFiles, historyFiles = historyFiles1, allFiles = allLfsFiles,
            mode = mode, hasConfig = (mode = Configured) \<rparr>, w1))"

subsection \<open>Tracking rules and migration (setupLFS)\<close>

definition generateGitAttributes :: "string list \<Rightarrow> string" where
  "generateGitAttributes lfsFiles =
     (if length lfsFiles = 0 then []
      else join_with [CHR 0x0A]
             ([''# Git LFS configuration'',
               ''# Generated by bitbucket-to-github migration tool'',
               ''''] @ map (\<lambda>file. file @ '' filter=lfs diff=lfs merge=lfs -text'') lfsFiles)
           @ [CHR 0x0A])"

definition writeFile :: "string \<Rightarrow> string \<Rightarrow> world \<Rightarrow> js_error + world" where
  "writeFile p text w =
     (if write_ok w p then Inr (w\<lparr> trace := trace w @ [WriteFile p text] \<rparr>)
      else Inl (Error (''EACCES: permission denied, open '' @ p)))"

text \<open>
  A \<^verbatim>\<open>try\<close> block of consecutive \<^verbatim>\<open>execSync\<close> statements whose output is not used: the
  commands run in order up to the first one that fails.
\<close>

fun exec_all :: "cmd list \<Rightarrow> world \<Rightarrow> (string + unit) \<times> world" where
  "exec_all [] w = (Inr (), w)"
| "exec_all (c # cs) w =
     (case execSync c w of
        (Inl err, w') \<Rightarrow> (Inl err, w')
      | (Inr out, w') \<Rightarrow> exec_all cs w')"

text \<open>The loop \<^verbatim>\<open>git lfs track "file"\<close> over all files; a failure is caught per file.\<close>

definition track_all :: "string list \<Rightarrow> world \<Rightarrow> world" where
  "track_all fs w = foldl (\<lambda>w file. snd (execSync (LfsTrack file) w)) w fs"

text \<open>Adding and committing \<^verbatim>\<open>.gitattributes\<close>, with the reset in the \<^verbatim>\<open>catch\<close> block.\<close>

definition commit_gitattributes :: "world \<Rightarrow> world" where
  "commit_gitattributes w =
     (case exec_all [AddGitattributes, CommitGitattributes] w of
        (Inr u, w1) \<Rightarrow> w1
      | (Inl err, w1) \<Rightarrow> snd (exec_all [ResetSoftHead, AddGitattributes] w1))"

text \<open>
  The lines of \<^verbatim>\<open>git lfs ls-files\<close> and the file name of a line,
  \<^verbatim>\<open>file.split(' - ')[1] || file\<close>.
\<close>

definition lfs_ls_lines :: "string \<Rightarrow> string list" where
  "lfs_ls_lines lfsStatus =
     filter (\<lambda>line. js_trim line \<noteq> []) (split_on CHR 0x0A [] (js_trim lfsStatus))"

fun find_sep :: "string \<Rightarrow> string \<Rightarrow> (string \<times> string) option" where
  "find_sep sep [] = (if sep = [] then Some ([], []) else None)"
| "find_sep sep (c # cs) =
     (if prefix sep (c # cs) then Some ([], drop (length sep) (c # cs))
      else map_option (\<lambda>(a, b). (c # a, b)) (find_sep sep cs))"

definition lfs_file_name :: "string \<Rightarrow> string" where
  "lfs_file_name line =
     (case find_sep '' - '' line of
        None \<Rightarrow> line
      | Some (first, rest) \<Rightarrow>
          (let second = (case find_sep '' - '' rest of None \<Rightarrow> rest | Some (a, b) \<Rightarrow> a)
           in if second = [] then line else second))"

record setup_result =
  hasLFS :: bool
  filesCount :: nat
  lfs_files :: "string list"
  currentFiles :: "string list option"
  lfs_historyFiles :: "string list option"
  lfs_mode :: lfs_mode

text \<open>
  The block \<^verbatim>\<open>if (allFiles.length > 0) { try { ... } catch (migrateError) { ... } }\<close>: the
  choice of the migration command (\<open>migrate_command\<close>, the \<^verbatim>\<open>if\<close> and \<^verbatim>\<open>else if\<close> on
  \<^verbatim>\<open>historyFiles.length\<close> and \<^verbatim>\<open>lfsFiles.length\<close>), the check of its result, and the
  early return when files are in LFS afterwards (\<open>Some\<close>). The threshold of the size-based
  command is \<^verbatim>\<open>parseInt(this.getDefaultThreshold().replace('MB', ''))\<close>.
\<close>

definition migrate_command :: "scan_result \<Rightarrow> cmd option" where
  "migrate_command scan =
     (if length (historyFiles scan) > 0
      then (let thresholdMB = js_parseInt (replace_first ''MB'' [] getDefaultThreshold)
            in Some (MigrateAbove thresholdMB))
      else if length (files scan) > 0
      then Some (MigrateInclude (files scan))
      else None)"

definition run_migrate :: "scan_result \<Rightarrow> world \<Rightarrow> setup_result option \<times> world" where
  "run_migrate scan w =
     (if length (allFiles scan) > 0
      then
        (case (case migrate_command scan of
                 Some c \<Rightarrow> execSync c w
               | None \<Rightarrow> (Inr [], w)) of
           (Inl migrateError, w1) \<Rightarrow> (None, w1)
         | (Inr out, w1) \<Rightarrow>
             (case execSync LfsLsFiles w1 of
                (Inl migrateError, w2) \<Rightarrow> (None, w2)
              | (Inr lfsStatus, w2) \<Rightarrow>
                  (let lfsFilesList = lfs_ls_lines lfsStatus in
                   if length lfsFilesList > 0
                   then (Some \<lparr> hasLFS = True, filesCount = length lfsFilesList,
                                lfs_files = map lfs_file_name lfsFilesList,
                                currentFiles = None, lfs_historyFiles = None,
                                lfs_mode = mode scan \<rparr>, w2)
                   else (None, w2))))
      else (None, w))"

text \<open>The manual handling of one current file after a migration that left nothing in LFS.\<close>

definition force_convert :: "string \<Rightarrow> world \<Rightarrow> world" where
  "force_convert file w =
     snd (exec_all [RmCached file, AddGitattributes, LfsTrackList, AddFile file, LfsLsFiles] w)"

definition verify_pointer :: "string \<Rightarrow> world \<Rightarrow> world" where
  "verify_pointer file w =
     (case execSync LfsLsFiles w of
        (Inl statusError, w1) \<Rightarrow> w1
      | (Inr lfsStatus, w1) \<Rightarrow> if sublist file lfsStatus then w1 else force_convert file w1)"

definition reprocess_file :: "string \<Rightarrow> string \<Rightarrow> world \<Rightarrow> world" where
  "reprocess_file repoPath file w =
     (if \<not> fs_access w (length (trace w)) (path_join repoPath file) then w
      else
        (case exec_all [RmCached file, LfsTrackList, AddFile file] w of
           (Inl err, w1) \<Rightarrow> w1
         | (Inr u, w1) \<Rightarrow> snd (execSync (LsFilesStage file) (verify_pointer file w1))))"

definition reprocess_all :: "string \<Rightarrow> string list \<Rightarrow> world \<Rightarrow> world" where
  "reprocess_all repoPath lfsFiles w = foldl (\<lambda>w file. reprocess_file repoPath file w) w lfsFiles"

text \<open>The \<^verbatim>\<open>try\<close> block of \<^verbatim>\<open>setupLFS\<close>.\<close>

definition setupLFS_try :: "string \<Rightarrow> string \<Rightarrow> world \<Rightarrow> (js_error + setup_result) \<times> world" where
  "setupLFS_try repoPath repoName w =
     (case chdir repoPath w of
        Inl e \<Rightarrow> (Inl e, w)
      | Inr w1 \<Rightarrow>
          (let w2 = (if settings w1 = None then loadSettings w1 else w1);
               (scanResult, w3) = scanLFSFiles repoPath repoName w2
           in if length (allFiles scanResult) = 0
              then (Inr \<lparr> hasLFS = False, filesCount = 0, lfs_files = [], currentFiles = None,
                          lfs_historyFiles = None, lfs_mode = mode scanResult \<rparr>, w3)
              else
                (let w4 = snd (execSync LfsInstall w3) in
                 case writeFile (path_join repoPath ''.gitattributes'')
                        (generateGitAttributes (allFiles scanResult)) w4 of
                   Inl e \<Rightarrow> (Inl e, w4)
                 | Inr w5 \<Rightarrow>
                     (let w6 = commit_gitattributes (track_all (allFiles scanResult) w5) in
                      case run_migrate scanResult w6 of
                        (Some migrated, w7) \<Rightarrow> (Inr migrated, w7)
                      | (None, w7) \<Rightarrow>
                          (case execSync LfsLsFiles (reprocess_all repoPath (files scanResult) w7) of
                             (Inl err, w8) \<Rightarrow> (Inl (Error err), w8)
                           | (Inr finalLfsStatus, w8) \<Rightarrow>
                               (let finalLfsFiles = map lfs_file_name (lfs_ls_lines finalLfsStatus)
                                in (Inr \<lparr> hasLFS = (length finalLfsFiles > 0),
                                          filesCount = length finalLfsFiles,
                                          lfs_files = finalLfsFiles,
                                          currentFiles = Some (files scanResult),
                                          lfs_historyFiles = Some (historyFiles scanResult),
                                          lfs_mode = mode scanResult \<rparr>, w8)))))))"

text \<open>
  \<^verbatim>\<open>setupLFS\<close>: the \<^verbatim>\<open>try\<close> block, the \<^verbatim>\<open>catch\<close> that wraps any error, and the
  \<^verbatim>\<open>finally\<close> that changes back to the original directory (an error thrown there replaces
  the outcome).
\<close>

definition setupLFS :: "string \<Rightarrow> string \<Rightarrow> world \<Rightarrow> (js_error + setup_result) \<times> world" where
  "setupLFS repoPath repoName w =
     (let originalCwd = cwd w;
          (r, w1) = setupLFS_try repoPath repoName w;
          outcome = (case r of
                       Inl e \<Rightarrow> Inl (Error (''LFS setup failed '' @ repoName @ '': '' @ message e))
                     | Inr v \<Rightarrow> Inr v)
      in case chdir originalCwd w1 of
           Inl e \<Rightarrow> (Inl e, w1)
         | Inr w2 \<Rightarrow> (outcome, w2))"

definition getExistingLFSFiles :: "string \<Rightarrow> world \<Rightarrow> (js_error + string list) \<times> world" where
  "getExistingLFSFiles repoPath w =
     (let originalCwd = cwd w;
          (r, w1) = (case chdir repoPath w of
                       Inl e \<Rightarrow> ([], w)
                     | Inr w1 \<Rightarrow>
                         (case execSync LfsLsFiles w1 of
                            (Inl err, w2) \<Rightarrow> ([], w2)
                          | (Inr lfsFiles, w2) \<Rightarrow> (lfs_ls_lines lfsFiles, w2)))
      in case chdir originalCwd w1 of
           Inl e \<Rightarrow> (Inl e, w1)
         | Inr w2 \<Rightarrow> (Inr r, w2))"

section \<open>Git operations (GitOperations)\<close>

definition getRepoPath :: "string \<Rightarrow> world \<Rightarrow> string" where
  "getRepoPath repoName w = path_join (tempDir w) repoName"

text \<open>\<^verbatim>\<open>fs.rm(repoPath, {recursive: true, force: true})\<close>; an error is ignored.\<close>

definition cleanupRepo :: "string \<Rightarrow> world \<Rightarrow> world" where
  "cleanupRepo repoName w = w\<lparr> trace := trace w @ [RemoveTree (getRepoPath repoName w)] \<rparr>"

definition cloneBitbucketRepo :: "string \<Rightarrow> string \<Rightarrow> world \<Rightarrow> (js_error + string) \<times> world" where
  "cloneBitbucketRepo repoName branchName w =
     (let repoPath = getRepoPath repoName w;
          w1 = cleanupRepo repoName w
      in case execSync (CloneBranch branchName repoName) w1 of
           (Inl err, w2) \<Rightarrow> (Inl (Error (''Clone failed '' @ repoName @ '': '' @ err)), w2)
         | (Inr out, w2) \<Rightarrow> (Inr repoPath, w2))"

text \<open>
  The block that fetches the LFS objects inside \<^verbatim>\<open>handleLFS\<close>, with its own
  \<^verbatim>\<open>try\<close>, \<^verbatim>\<open>catch\<close> and \<^verbatim>\<open>finally\<close>.
\<close>

definition fetch_lfs :: "string \<Rightarrow> world \<Rightarrow> (js_error + unit) \<times> world" where
  "fetch_lfs repoPath w =
     (let originalCwd = cwd w;
          w1 = (case chdir repoPath w of
                  Inl e \<Rightarrow> w
                | Inr w1 \<Rightarrow> snd (execSync LfsFetchAll w1))
      in case chdir originalCwd w1 of
           Inl e \<Rightarrow> (Inl e, w1)
         | Inr w2 \<Rightarrow> (Inr (), w2))"

text \<open>
  The result of \<^verbatim>\<open>handleLFS\<close> is the result of \<^verbatim>\<open>setupLFS\<close> with the field
  \<^verbatim>\<open>source\<close>, which is the mode again (\<^verbatim>\<open>existing\<close>, \<^verbatim>\<open>configured\<close>, or
  \<^verbatim>\<open>auto-detected\<close>), so the record type is the same.
\<close>

definition handleLFS_try :: "string \<Rightarrow> world \<Rightarrow> (js_error + setup_result) \<times> world" where
  "handleLFS_try repoName w =
     (let repoPath = getRepoPath repoName w;
          w1 = loadSettings w
      in case getExistingLFSFiles repoPath w1 of
           (Inl e, w2) \<Rightarrow> (Inl e, w2)
         | (Inr existingLFS, w2) \<Rightarrow>
             if length existingLFS > 0
             then (case fetch_lfs repoPath w2 of
                     (Inl e, w3) \<Rightarrow> (Inl e, w3)
                   | (Inr u, w3) \<Rightarrow>
                       (Inr \<lparr> hasLFS = True, filesCount = length existingLFS,
                               lfs_files = existingLFS, currentFiles = None,
                               lfs_historyFiles = None, lfs_mode = Existing \<rparr>, w3))
             else
               (case setupLFS repoPath repoName w2 of
                  (Inl e, w3) \<Rightarrow> (Inl e, w3)
                | (Inr lfsResult, w3) \<Rightarrow>
                    if hasLFS lfsResult
                    then (case fetch_lfs repoPath w3 of
                            (Inl e, w4) \<Rightarrow> (Inl e, w4)
                          | (Inr u, w4) \<Rightarrow> (Inr lfsResult, w4))
                    else (Inr lfsResult, w3)))"

definition handleLFS :: "string \<Rightarrow> world \<Rightarrow> (js_error + setup_result) \<times> world" where
  "handleLFS repoName w =
     (case handleLFS_try repoName w of
        (Inl e, w1) \<Rightarrow> (Inl (Error (''LFS handling failed '' @ repoName @ '': '' @ message e)), w1)
      | (Inr r, w1) \<Rightarrow> (Inr r, w1))"

definition pushToGitHub :: "string \<Rightarrow> string \<Rightarrow> setup_result \<Rightarrow> world \<Rightarrow> (js_error + unit) \<times> world" where
  "pushToGitHub repoName branchName lfsInfo w =
     (let repoPath = getRepoPath repoName w;
          originalCwd = cwd w;
          (r, w1) = (case chdir repoPath w of
                       Inl e \<Rightarrow> (Inl (message e), w)
                     | Inr w1 \<Rightarrow>
                         exec_all ([RemoteAddGithub repoName, PushGithub branchName]
                                   @ (if hasLFS lfsInfo then [LfsPushAll] else [])) w1);
          outcome = (case r of
                       Inl msg \<Rightarrow> Inl (Error (''Push failed '' @ repoName @ '': '' @ msg))
                     | Inr u \<Rightarrow> Inr ())
      in case chdir originalCwd w1 of
           Inl e \<Rightarrow> (Inl e, w1)
         | Inr w2 \<Rightarrow> (outcome, w2))"

section \<open>Destination hosting client (GitHubAPI)\<close>

text \<open>
  A request is logged and fails with the fault of the moment, if there is one; otherwise
  the functions below answer it from the state of the account. An HTTP error response
  is an error value with that response.
\<close>

definition api_request :: "api_call \<Rightarrow> world \<Rightarrow> js_error option \<times> world" where
  "api_request c w = (api_fault w (length (trace w)), w\<lparr> trace := trace w @ [Api c] \<rparr>)"

definition status_error :: "nat \<Rightarrow> string \<Rightarrow> bool \<Rightarrow> js_error" where
  "status_error code msg exists =
     \<lparr> message = ''Request failed with status code'',
       response = Some \<lparr> status = code, ratelimit_remaining = None, ratelimit_limit = None,
                          ratelimit_reset = None, data_message = Some msg,
                          errors_already_exists = exists \<rparr> \<rparr>"

definition has_status :: "nat \<Rightarrow> js_error \<Rightarrow> bool" where
  "has_status code e = (case response e of None \<Rightarrow> False | Some r \<Rightarrow> status r = code)"

text \<open>\<^verbatim>\<open>error.response?.data?.message || error.message\<close>\<close>

definition api_message :: "js_error \<Rightarrow> string" where
  "api_message e =
     (case response e of
        None \<Rightarrow> message e
      | Some r \<Rightarrow> (case data_message r of
                     None \<Rightarrow> message e
                   | Some m \<Rightarrow> if m = [] then message e else m))"

definition repositoryExists :: "string \<Rightarrow> world \<Rightarrow> (js_error + bool) \<times> world" where
  "repositoryExists repoName w =
     (case api_request (GetRepo repoName) w of
        (Some e, w1) \<Rightarrow> (if has_status 404 e then Inr False else Inl e, w1)
      | (None, w1) \<Rightarrow> (Inr (github w1 repoName \<noteq> None), w1))"

text \<open>
  The contents request answers 404 for a repository without any commit (and for one that
  does not exist), and a non-empty array otherwise.
\<close>

definition isRepositoryEmpty :: "string \<Rightarrow> world \<Rightarrow> (js_error + bool) \<times> world" where
  "isRepositoryEmpty repoName w =
     (case api_request (GetContents repoName) w of
        (Some e, w1) \<Rightarrow> (if has_status 404 e then Inr True else Inl e, w1)
      | (None, w1) \<Rightarrow> (Inr (github w1 repoName \<noteq> Some False), w1))"

definition getRepository :: "string \<Rightarrow> world \<Rightarrow> (js_error + unit) \<times> world" where
  "getRepository repoName w =
     (case api_request (GetRepo repoName) w of
        (Some e, w1) \<Rightarrow> (Inl (Error (''GitHub API Error: '' @ api_message e)), w1)
      | (None, w1) \<Rightarrow>
          (if github w1 repoName \<noteq> None then Inr ()
           else Inl (Error (''GitHub API Error: '' @ api_message (status_error 404 ''Not Found'' False))),
           w1))"

definition enableLFS :: "string \<Rightarrow> world \<Rightarrow> world" where
  "enableLFS repoName w = snd (api_request (PutLfs repoName) w)"

definition deleteRepository :: "string \<Rightarrow> world \<Rightarrow> world" where
  "deleteRepository repoName w =
     (case api_request (DeleteRepo repoName) w of
        (Some e, w1) \<Rightarrow> w1
      | (None, w1) \<Rightarrow> w1\<lparr> github := (github w1)(repoName := None) \<rparr>)"

record create_result =
  skipped :: bool
  cr_created_at :: nat

definition createRepository_try :: "string \<Rightarrow> bool \<Rightarrow> world \<Rightarrow> (js_error + create_result) \<times> world" where
  "createRepository_try repoName isLFS w =
     (case repositoryExists repoName w of
        (Inl e, w1) \<Rightarrow> (Inl e, w1)
      | (Inr True, w1) \<Rightarrow>
          (case isRepositoryEmpty repoName w1 of
             (Inl e, w2) \<Rightarrow> (Inl e, w2)
           | (Inr True, w2) \<Rightarrow>
               (let w3 = (if isLFS then enableLFS repoName w2 else w2) in
                case getRepository repoName w3 of
                  (Inl e, w4) \<Rightarrow> (Inl e, w4)
                | (Inr u, w4) \<Rightarrow> (Inr \<lparr> skipped = True, cr_created_at = clock w4 \<rparr>, w4))
           | (Inr False, w2) \<Rightarrow>
               (Inl (Error (''Repository '' @ repoName @ '' exists and is not empty, handle it manually'')),
                w2))
      | (Inr False, w1) \<Rightarrow>
          (case api_request (PostRepo repoName) w1 of
             (Some e, w2) \<Rightarrow> (Inl e, w2)
           | (None, w2) \<Rightarrow>
               if github w2 repoName \<noteq> None
               then (Inl (status_error 422 ''Repository creation failed.'' True), w2)
               else
                 (let w3 = w2\<lparr> github := (github w2)(repoName \<mapsto> True) \<rparr>;
                      w4 = (if isLFS then enableLFS repoName w3 else w3)
                  in (Inr \<lparr> skipped = False, cr_created_at = clock w4 \<rparr>, w4))))"

definition createRepository :: "string \<Rightarrow> bool \<Rightarrow> world \<Rightarrow> (js_error + create_result) \<times> world" where
  "createRepository repoName isLFS w =
     (case createRepository_try repoName isLFS w of
        (Inr r, w1) \<Rightarrow> (Inr r, w1)
      | (Inl e, w1) \<Rightarrow>
          (if has_status 422 e \<and> (case response e of None \<Rightarrow> False | Some r \<Rightarrow> errors_already_exists r)
           then Inl (Error (''Repository '' @ repoName @ '' already exists, it may be non-empty or the check failed''))
           else Inl (Error (''GitHub API Error: '' @ api_message e)),
           w1))"

section \<open>Utilities\<close>

text \<open>
  \<^verbatim>\<open>retry(fn, maxRetries, delayMs)\<close>, by recursion on the attempts that are left. With no
  attempt at all the function throws the initial value of \<^verbatim>\<open>lastError\<close>, which is
  \<^verbatim>\<open>undefined\<close>; the program always asks for three.
\<close>

fun retry :: "(world \<Rightarrow> (js_error + 'a) \<times> world) \<Rightarrow> nat \<Rightarrow> nat \<Rightarrow> world \<Rightarrow> (js_error + 'a) \<times> world" where
  "retry fn 0 delayMs w = (Inl (Error ''undefined''), w)"
| "retry fn (Suc left) delayMs w =
     (case fn w of
        (Inr v, w1) \<Rightarrow> (Inr v, w1)
      | (Inl e, w1) \<Rightarrow> if left = 0 then (Inl e, w1) else retry fn left delayMs (delay delayMs w1))"

record rate_limit_info =
  rl_remaining :: nat
  rl_limit :: nat
  rl_reset :: nat
  resetTime :: nat
  waitTime :: nat
  waitMinutes :: nat

text \<open>
  \<^verbatim>\<open>checkRateLimit(error)\<close>; the header values are numbers, an absent header counts as
  \<^verbatim>\<open>'0'\<close> (\<^verbatim>\<open>'5000'\<close> for the limit). Times are in milliseconds.
\<close>

definition checkRateLimit :: "js_error \<Rightarrow> world \<Rightarrow> rate_limit_info option" where
  "checkRateLimit e w =
     (case response e of
        None \<Rightarrow> None
      | Some r \<Rightarrow>
          if status r = 403
          then (let remaining = (case ratelimit_remaining r of None \<Rightarrow> 0 | Some n \<Rightarrow> n);
                    lim = (case ratelimit_limit r of None \<Rightarrow> 5000 | Some n \<Rightarrow> n);
                    reset = (case ratelimit_reset r of None \<Rightarrow> 0 | Some n \<Rightarrow> n)
                in if remaining = 0
                   then Some \<lparr> rl_remaining = remaining, rl_limit = lim, rl_reset = reset,
                               resetTime = reset * 1000,
                               waitTime = reset * 1000 - clock w,
                               waitMinutes = (reset * 1000 - clock w + 59999) div 60000 \<rparr>
                   else None)
          else None)"

section \<open>Migration orchestrator (RepositoryMigrator)\<close>

text \<open>
  The \<^verbatim>\<open>try\<close> block of \<^verbatim>\<open>migrateRepository\<close>. Next to the outcome it returns the value of
  the variable \<^verbatim>\<open>createResult\<close> at the moment the block ends (\<open>None\<close> is \<^verbatim>\<open>null\<close>).
\<close>

definition set_store :: "store \<Rightarrow> world \<Rightarrow> world" where
  "set_store st w = w\<lparr> repos_store := st \<rparr>"

definition migrateRepository_try ::
  "repo \<Rightarrow> world \<Rightarrow> (js_error + unit) \<times> create_result option \<times> world" where
  "migrateRepository_try repo w =
     (case markAsProcessing (clock w) (name repo) (repos_store w) of
        Inl e \<Rightarrow> (Inl e, None, w)
      | Inr st1 \<Rightarrow>
          (case retry (createRepository (name repo) False) 3 2000 (set_store st1 w) of
             (Inl e, w2) \<Rightarrow> (Inl e, None, w2)
           | (Inr createResult, w2) \<Rightarrow>
               (case cloneBitbucketRepo (name repo) (branch repo) w2 of
                  (Inl e, w3) \<Rightarrow> (Inl e, Some createResult, w3)
                | (Inr repoPath, w3) \<Rightarrow>
                    (case handleLFS (name repo) w3 of
                       (Inl e, w4) \<Rightarrow> (Inl e, Some createResult, w4)
                     | (Inr lfsInfo, w4) \<Rightarrow>
                         (let w5 = (if hasLFS lfsInfo \<and> length (lfs_files lfsInfo) > 0
                                    then enableLFS (name repo) w4 else w4)
                          in case pushToGitHub (name repo) (branch repo) lfsInfo w5 of
                               (Inl e, w6) \<Rightarrow> (Inl e, Some createResult, w6)
                             | (Inr u, w6) \<Rightarrow>
                                 (let w7 = cleanupRepo (name repo) w6 in
                                  case markAsCompleted (clock w7) (name repo)
                                         (Some (cr_created_at createResult)) (repos_store w7) of
                                    Inl e \<Rightarrow> (Inl e, Some createResult, w7)
                                  | Inr st8 \<Rightarrow>
                                      (Inr (), Some createResult,
                                       (set_store st8 w7)\<lparr> stats := (stats w7)\<lparr>
                                          succeeded := succeeded (stats w7) + 1 \<rparr> \<rparr>)))))))"

text \<open>
  The \<^verbatim>\<open>catch\<close> block: the destination is deleted when
  \<^verbatim>\<open>!createResult || !createResult.skipped\<close>, the working copy is removed, and the failure
  is recorded. The error thrown on is the caught one, unless \<^verbatim>\<open>markAsError\<close> throws itself.
\<close>

definition migrateRepository_catch ::
  "repo \<Rightarrow> js_error \<Rightarrow> create_result option \<Rightarrow> world \<Rightarrow> js_error \<times> world" where
  "migrateRepository_catch repo e createResult w =
     (let w1 = w\<lparr> stats := (stats w)\<lparr> failed := failed (stats w) + 1 \<rparr> \<rparr>;
          w2 = (if (case createResult of None \<Rightarrow> True | Some r \<Rightarrow> \<not> skipped r)
                then deleteRepository (name repo) w1 else w1);
          w3 = cleanupRepo (name repo) w2
      in case markAsError (clock w3) (name repo) (message e) (repos_store w3) of
           Inl e' \<Rightarrow> (e', w3)
         | Inr st \<Rightarrow> (e, set_store st w3))"

definition migrateRepository :: "repo \<Rightarrow> world \<Rightarrow> (js_error + unit) \<times> world" where
  "migrateRepository repo w =
     (let (r, w1) =
            (case migrateRepository_try repo w of
               (Inr u, createResult, w1) \<Rightarrow> (Inr (), w1)
             | (Inl e, createResult, w1) \<Rightarrow>
                 (case migrateRepository_catch repo e createResult w1 of
                    (e', w2) \<Rightarrow> (Inl e', w2)))
      in (r, w1\<lparr> stats := (stats w1)\<lparr> processed := processed (stats w1) + 1 \<rparr> \<rparr>))"

text \<open>
  The \<^verbatim>\<open>catch\<close> block inside the loop of \<^verbatim>\<open>migrate\<close>, for the error \<open>e\<close> that
  \<^verbatim>\<open>migrateRepository\<close> has thrown. An error of the final \<^verbatim>\<open>updateRepoStatus\<close> leaves
  the loop.
\<close>

definition on_migrate_error :: "repo \<Rightarrow> js_error \<Rightarrow> world \<Rightarrow> (js_error + unit) \<times> world" where
  "on_migrate_error repo e w =
     (case checkRateLimit e w of
        Some rateLimitInfo \<Rightarrow>
          (let w1 = (if waitTime rateLimitInfo > 0
                     then delay (waitTime rateLimitInfo + 5000) w else w)
           in case migrateRepository repo w1 of
                (Inr u, w2) \<Rightarrow> (Inr (), w2)
              | (Inl retryError, w2) \<Rightarrow>
                  (case updateRepoStatus (clock w2) (name repo)
                          (no_updates\<lparr> u_processing := Some False \<rparr>) (repos_store w2) of
                     Inl e' \<Rightarrow> (Inl e', w2)
                   | Inr st \<Rightarrow> (Inr (), set_store st w2)))
      | None \<Rightarrow> (Inr (), w))"

text \<open>The body of the loop for the repository at index \<open>i\<close>, and the loop.\<close>

definition migrate_one :: "nat \<Rightarrow> repo \<Rightarrow> world \<Rightarrow> (js_error + unit) \<times> world" where
  "migrate_one i repo w =
     (case migrateRepository repo w of
        (Inr u, w1) \<Rightarrow> (Inr (), if (i + 1) mod 5 = 0 then delay 3000 w1 else w1)
      | (Inl e, w1) \<Rightarrow> on_migrate_error repo e w1)"

fun migrate_loop :: "nat \<Rightarrow> repo list \<Rightarrow> world \<Rightarrow> (js_error + unit) \<times> world" where
  "migrate_loop i [] w = (Inr (), w)"
| "migrate_loop i (repo # pendingRepos) w =
     (case migrate_one i repo w of
        (Inl e, w1) \<Rightarrow> (Inl e, w1)
      | (Inr u, w1) \<Rightarrow> migrate_loop (Suc i) pendingRepos w1)"

section \<open>Observations\<close>

text \<open>The history rewrites (\<^verbatim>\<open>git lfs migrate import\<close>) in a list of events.\<close>

fun is_migrate :: "event \<Rightarrow> bool" where
  "is_migrate (Exec (MigrateAbove n)) = True"
| "is_migrate (Exec (MigrateInclude fs)) = True"
| "is_migrate e = False"

definition migrations :: "world \<Rightarrow> event list" where
  "migrations w = filter is_migrate (trace w)"

text \<open>
  \<open>stepped P w w'\<close>: from \<open>w\<close> to \<open>w'\<close> only events that satisfy \<open>P\<close> have happened, and the
  existing directories, the writable paths, the state store and the temporary directory are
  the same. \<open>quiet\<close> events are the ones that are not history rewrites.
\<close>

definition stepped :: "(event \<Rightarrow> bool) \<Rightarrow> world \<Rightarrow> world \<Rightarrow> bool" where
  "stepped P w w' \<longleftrightarrow>
     dirs w' = dirs w \<and> write_ok w' = write_ok w \<and> repos_store w' = repos_store w
     \<and> tempDir w' = tempDir w
     \<and> (\<exists>evs. trace w' = trace w @ evs \<and> list_all P evs)"

abbreviation (input) quiet :: "event \<Rightarrow> bool" where
  "quiet \<equiv> (\<lambda>e. \<not> is_migrate e)"

text \<open>
  The decision table of the strategy selector, in the words of the specification: the
  size-based rewrite at the global threshold of 50 MB when there are history files, the
  rewrite by the list of current files when there are only current files, and none otherwise.
  It is compared with what \<^verbatim>\<open>setupLFS\<close> runs.
\<close>

definition expected_rewrite :: "scan_result \<Rightarrow> event list" where
  "expected_rewrite scan =
     (if historyFiles scan \<noteq> [] then [Exec (MigrateAbove (Some 50))]
      else if files scan \<noteq> [] then [Exec (MigrateInclude (files scan))]
      else [])"

section \<open>An example environment\<close>

text \<open>
  A process in \<^verbatim>\<open>/app\<close> with a clone in \<^verbatim>\<open>/tmp/r\<close>. The history has three commits: the
  tree of \<open>c1\<close> holds a file of 52428801 bytes, one of exactly 52428800 bytes and a
  submodule entry, the tree of \<open>c2\<close> cannot be read, and the tree of \<open>c3\<close> holds a file of
  60000000 bytes that is no longer in the working tree. The working tree has
  \<^verbatim>\<open>here.bin\<close> (80 MB) and \<^verbatim>\<open>a.txt\<close>. The settings file has an entry for the repository
  \<open>r\<close>, naming \<^verbatim>\<open>here.bin\<close> and the missing \<^verbatim>\<open>gone.bin\<close>.
\<close>

definition example_rev_list :: string where
  "example_rev_list = ''c1'' @ [CHR 0x0A] @ ''c2'' @ [CHR 0x0A] @ ''c3'' @ [CHR 0x0A]"

definition example_tree1 :: string where
  "example_tree1 = ''m b h 52428801 big file.bin'' @ [CHR 0x0A] @ ''m b h 52428800 edge.bin''
                     @ [CHR 0x0A] @ ''m c h - sub''"

definition example_tree3 :: string where
  "example_tree3 = ''m b h 60000000 old.bin''"

definition example_exec :: "nat \<Rightarrow> cmd \<Rightarrow> string + string" where
  "example_exec t c =
     (case c of
        RevListAll \<Rightarrow> Inr example_rev_list
      | LsTree x \<Rightarrow>
          (if x = ''c1'' then Inr example_tree1
           else if x = ''c3'' then Inr example_tree3
           else Inl ''fatal: bad object'')
      | _ \<Rightarrow> Inr [])"

definition example_settings :: "string \<Rightarrow> lfs_config option" where
  "example_settings n =
     (if n = ''r''
      then Some \<lparr> cfg_files = Some [''here.bin'', ''gone.bin''], cfg_patterns = None,
                  cfg_autoDetect = False \<rparr>
      else None)"

definition example_world :: world where
  "example_world =
     \<lparr> cwd = ''/app'',
       dirs = (\<lambda>p. p = ''/app'' \<or> p = ''/tmp/r''),
       trace = [],
       exec_out = example_exec,
       fs_access = (\<lambda>t p. p = ''/tmp/r/here.bin''),
       glob_out = (\<lambda>d p. None),
       glob_files = (\<lambda>d. Some [''a.txt'', ''here.bin'']),
       stat_size = (\<lambda>p. if p = ''/tmp/r/here.bin'' then Some 83886080 else Some 10),
       write_ok = (\<lambda>p. True),
       settings_file = Some example_settings,
       settings = Some example_settings,
       tempDir = ''/tmp'',
       repos_store = store_of [example_repo],
       github = (\<lambda>n. None),
       api_fault = (\<lambda>t. None),
       clock = 0,
       stats = \<lparr> processed = 0, succeeded = 0, failed = 0 \<rparr> \<rparr>"

text \<open>
  Variants: an environment whose history holds no commit, one in which no file of the
  working tree is large either, and one in which every command fails.
\<close>

definition recent_world :: world where
  "recent_world = example_world\<lparr> exec_out := (\<lambda>t c. Inr []) \<rparr>"

definition plain_world :: world where
  "plain_world = recent_world\<lparr> glob_files := (\<lambda>d. Some [''a.txt'']) \<rparr>"

definition broken_world :: world where
  "broken_world = example_world\<lparr> exec_out := (\<lambda>t c. Inl ''fatal'') \<rparr>"

definition example_info :: setup_result where
  "example_info = \<lparr> hasLFS = True, filesCount = 1, lfs_files = [''here.bin''],
      currentFiles = None, lfs_historyFiles = None, lfs_mode = Configured \<rparr>"

section \<open>Properties of the Repository State Store\<close>

lemma findIndex_SomeD:
  "findIndex p xs = Some i \<Longrightarrow> i < length xs \<and> p (xs ! i)"
  by (induction xs arbitrary: i) (auto split: if_splits)

lemma find_findIndex:
  "find p xs = map_option (\<lambda>i. xs ! i) (findIndex p xs)"
  by (induction xs) (auto simp: option.map_comp comp_def)

lemma findIndex_update:
  "findIndex p xs = Some i \<Longrightarrow> p y \<Longrightarrow> findIndex p (xs[i := y]) = Some i"
  by (induction xs arbitrary: i) (auto split: if_splits)

lemma list_all_update:
  "list_all P xs \<Longrightarrow> P y \<Longrightarrow> list_all P (xs[i := y])"
  by (induction xs arbitrary: i) (auto split: nat.splits)

lemma name_update_record [simp]: "name (update_record now u r) = name r"
  by (simp add: update_record_def object_assign_def Let_def)

lemma record_ok_update_record:
  assumes "record_ok r"
    and "u_transferred u = None \<Longrightarrow> transferred r \<Longrightarrow>
           u_processing u \<noteq> Some True \<and> (\<forall>m. u_error u \<noteq> Some (Some m))"
  shows "record_ok (update_record now u r)"
  using assms
  by (cases "u_transferred u"; cases "u_processing u"; cases "u_error u")
     (auto simp: record_ok_def update_record_def object_assign_def Let_def)

lemma updateRepoStatus_InrD:
  assumes "updateRepoStatus now n u st = Inr st'"
  obtains repos i where "content st = Some repos" "findIndex (\<lambda>r. name r = n) repos = Some i"
    "writable st"
    "st' = st\<lparr> content := Some (repos[i := update_record now u (repos ! i)]) \<rparr>"
    "target n st = Some (repos ! i)"
    "target n st' = Some (update_record now u (repos ! i))"
proof -
  from assms obtain repos where c: "content st = Some repos"
    by (auto simp: updateRepoStatus_def loadRepos_def split: option.splits)
  with assms obtain i where i: "findIndex (\<lambda>r. name r = n) repos = Some i"
    by (auto simp: updateRepoStatus_def loadRepos_def split: option.splits)
  from assms c i have w: "writable st"
    and st': "st' = st\<lparr> content := Some (repos[i := update_record now u (repos ! i)]) \<rparr>"
    by (auto simp: updateRepoStatus_def loadRepos_def saveRepos_def split: if_splits)
  from i have len: "i < length repos" by (simp add: findIndex_SomeD)
  have t: "target n st = Some (repos ! i)"
    by (simp add: target_def c find_findIndex i)
  have "findIndex (\<lambda>r. name r = n) (repos[i := update_record now u (repos ! i)]) = Some i"
    using i findIndex_SomeD [OF i] by (intro findIndex_update) simp_all
  then have t': "target n st' = Some (update_record now u (repos ! i))"
    using len by (simp add: target_def st' find_findIndex)
  from c i w st' t t' show thesis by (rule that)
qed

lemma table_ok_updateRepoStatus:
  assumes ok: "table_ok st" and upd: "updateRepoStatus now n u st = Inr st'"
    and safe: "\<And>r. target n st = Some r \<Longrightarrow> u_transferred u = None \<Longrightarrow> transferred r \<Longrightarrow>
           u_processing u \<noteq> Some True \<and> (\<forall>m. u_error u \<noteq> Some (Some m))"
  shows "table_ok st'"
proof -
  from upd obtain repos i where c: "content st = Some repos"
    and i: "findIndex (\<lambda>r. name r = n) repos = Some i"
    and st': "st' = st\<lparr> content := Some (repos[i := update_record now u (repos ! i)]) \<rparr>"
    and t: "target n st = Some (repos ! i)"
    by (rule updateRepoStatus_InrD)
  from ok c have all: "list_all record_ok repos" by (simp add: table_ok_def)
  from i have "i < length repos" by (simp add: findIndex_SomeD)
  with all have "record_ok (repos ! i)" by (simp add: list_all_length)
  then have "record_ok (update_record now u (repos ! i))"
    using safe [OF t] by (intro record_ok_update_record) auto
  with all show ?thesis by (simp add: st' table_ok_def list_all_update)
qed

lemma table_ok_resetProcessingRepos:
  assumes "table_ok st" and "resetProcessingRepos st = Inr (k, st')"
  shows "table_ok st'"
  using assms
  by (auto simp: resetProcessingRepos_def loadRepos_def saveRepos_def table_ok_def Let_def
      list_all_iff record_ok_def split: option.splits if_splits)

lemmas store_defs = store_of_def example_repo_def migrated_repo_def table_ok_def record_ok_def
  target_def markAsCompleted_def clearError_def resetProcessingRepos_def updateRepoStatus_def
  markAsProcessing_def markAsError_def loadRepos_def saveRepos_def update_record_def
  object_assign_def no_updates_def Let_def

text \<open>
  Claim C5, as the code has it. \<^verbatim>\<open>updateRepoStatus\<close> merges the patch without looking at the
  record's \<open>transferred\<close> flag, so the invariant
  "\<open>transferred\<close> implies not \<open>processing\<close> and no \<open>error\<close>" is preserved
  \<^item> by \<^verbatim>\<open>markAsCompleted\<close>, \<^verbatim>\<open>clearError\<close> and \<^verbatim>\<open>resetProcessingRepos\<close> on every table,
  \<^item> by every update that sets \<open>transferred = true\<close>, which also clears \<open>processing\<close> and
    \<open>error\<close> and stamps \<open>pushed_at\<close>, whatever the record held before,
  \<^item> by \<^verbatim>\<open>markAsProcessing\<close>, \<^verbatim>\<open>markAsError\<close> and any other update when the record they act
    on is not transferred (the only way the orchestrator calls them).
\<close>

theorem store_invariant_preserved:
  assumes "table_ok st"
  shows "(markAsCompleted now n c st = Inr st1 \<longrightarrow> table_ok st1)
       \<and> (clearError now n st = Inr st2 \<longrightarrow> table_ok st2)
       \<and> (resetProcessingRepos st = Inr (k, st3) \<longrightarrow> table_ok st3)
       \<and> (updateRepoStatus now n u st = Inr st4 \<and> u_transferred u = Some True \<longrightarrow>
            table_ok st4 \<and>
            (\<exists>r. target n st4 = Some r \<and> transferred r \<and> \<not> processing r \<and> error r = None
                 \<and> pushed_at r = Some now))
       \<and> (updateRepoStatus now n u st = Inr st5 \<and> (\<forall>r. target n st = Some r \<longrightarrow> \<not> transferred r)
            \<longrightarrow> table_ok st5)
       \<and> (markAsProcessing now n st = Inr st6 \<and> (\<forall>r. target n st = Some r \<longrightarrow> \<not> transferred r)
            \<longrightarrow> table_ok st6)
       \<and> (markAsError now n m st = Inr st7 \<and> (\<forall>r. target n st = Some r \<longrightarrow> \<not> transferred r)
            \<longrightarrow> table_ok st7)"
proof (intro conjI impI)
  assume "markAsCompleted now n c st = Inr st1"
  then show "table_ok st1"
    unfolding markAsCompleted_def
    by (rule table_ok_updateRepoStatus [OF assms]) (simp add: no_updates_def)
next
  assume "clearError now n st = Inr st2"
  then show "table_ok st2"
    unfolding clearError_def
    by (rule table_ok_updateRepoStatus [OF assms]) (simp add: no_updates_def)
next
  assume "resetProcessingRepos st = Inr (k, st3)"
  with assms show "table_ok st3" by (rule table_ok_resetProcessingRepos)
next
  assume a: "updateRepoStatus now n u st = Inr st4 \<and> u_transferred u = Some True"
  then show "table_ok st4"
    by (intro table_ok_updateRepoStatus [OF assms, of now n u st4]) simp_all
  from a obtain repos i where "target n st4 = Some (update_record now u (repos ! i))"
    by (auto elim: updateRepoStatus_InrD)
  with a show "\<exists>r. target n st4 = Some r \<and> transferred r \<and> \<not> processing r \<and> error r = None
                 \<and> pushed_at r = Some now"
    by (simp add: update_record_def object_assign_def Let_def)
next
  assume "updateRepoStatus now n u st = Inr st5 \<and> (\<forall>r. target n st = Some r \<longrightarrow> \<not> transferred r)"
  then show "table_ok st5"
    by (intro table_ok_updateRepoStatus [OF assms, of now n u st5]) simp_all
next
  assume a: "markAsProcessing now n st = Inr st6 \<and> (\<forall>r. target n st = Some r \<longrightarrow> \<not> transferred r)"
  then have u: "updateRepoStatus now n (no_updates\<lparr> u_processing := Some True, u_error := Some None \<rparr>) st
      = Inr st6"
    by (simp add: markAsProcessing_def)
  show "table_ok st6"
    by (rule table_ok_updateRepoStatus [OF assms u]) (use a in auto)
next
  assume a: "markAsError now n m st = Inr st7 \<and> (\<forall>r. target n st = Some r \<longrightarrow> \<not> transferred r)"
  then obtain rc where u: "updateRepoStatus now n
      (no_updates\<lparr> u_processing := Some False, u_error := Some (Some m), u_retry_count := Some rc \<rparr>) st
      = Inr st7"
    by (auto simp: markAsError_def Let_def split: sum.splits)
  show "table_ok st7"
    by (rule table_ok_updateRepoStatus [OF assms u]) (use a in auto)
qed

text \<open>
  The statement at a one-record table whose record has failed three times: every operation
  returns, and the tables they return satisfy the invariant.
\<close>

theorem store_invariant_preserved_witness:
  "table_ok (store_of [example_repo])
   \<and> target ''alpha'' (store_of [example_repo]) = Some example_repo
   \<and> \<not> transferred example_repo
   \<and> markAsCompleted 1000 ''alpha'' None (store_of [example_repo]) = Inr (store_of [migrated_repo])
   \<and> table_ok (store_of [migrated_repo])
   \<and> clearError 1000 ''alpha'' (store_of [example_repo])
       = Inr (store_of [example_repo\<lparr> error := None, retry_count := 0 \<rparr>])
   \<and> table_ok (store_of [example_repo\<lparr> error := None, retry_count := 0 \<rparr>])
   \<and> markAsProcessing 1000 ''alpha'' (store_of [example_repo])
       = Inr (store_of [example_repo\<lparr> processing := True, error := None \<rparr>])
   \<and> table_ok (store_of [example_repo\<lparr> processing := True, error := None \<rparr>])
   \<and> markAsError 1000 ''alpha'' ''boom'' (store_of [example_repo])
       = Inr (store_of [example_repo\<lparr> error := Some ''boom'', retry_count := 4 \<rparr>])
   \<and> table_ok (store_of [example_repo\<lparr> error := Some ''boom'', retry_count := 4 \<rparr>])
   \<and> resetProcessingRepos (store_of [example_repo\<lparr> processing := True \<rparr>])
       = Inr (1, store_of [example_repo])
   \<and> table_ok (store_of [example_repo])"
  using store_invariant_preserved [of "store_of [example_repo]" 1000 "''alpha''" None
      "store_of [migrated_repo]"]
  by (simp add: store_defs)

text \<open>
  Claim C5 as stated fails: \<^verbatim>\<open>markAsProcessing\<close> on a record that is already transferred
  returns a table in which that record is transferred and processing at once.
\<close>

theorem markAsProcessing_breaks_invariant:
  "table_ok (store_of [migrated_repo])
   \<and> markAsProcessing 2000 ''alpha'' (store_of [migrated_repo])
       = Inr (store_of [migrated_repo\<lparr> processing := True \<rparr>])
   \<and> \<not> table_ok (store_of [migrated_repo\<lparr> processing := True \<rparr>])"
  by (simp add: store_defs)

text \<open>
  Claim C6. On a readable table \<^verbatim>\<open>getPendingRepos\<close> returns the records that are not
  transferred, not processing and have \<open>retry_count < 3\<close>, in table order; a record whose
  \<open>retry_count\<close> has reached 3 is not among them; and after \<^verbatim>\<open>clearError\<close> on a record that
  is neither transferred nor processing, that record, with \<open>error = null\<close> and
  \<open>retry_count = 0\<close>, is among them.
\<close>

theorem pending_repositories:
  "(content st = Some repos \<longrightarrow>
      (\<exists>ps. getPendingRepos st = Inr ps
         \<and> ps = filter (\<lambda>r. \<not> transferred r \<and> \<not> processing r \<and> retry_count r < 3) repos
         \<and> subseq ps repos
         \<and> (\<forall>r. 3 \<le> retry_count r \<longrightarrow> r \<notin> set ps)))
   \<and> (content st = Some repos \<and> writable st \<and> target n st = Some r
        \<and> \<not> transferred r \<and> \<not> processing r \<longrightarrow>
      (\<exists>st' ps. clearError now n st = Inr st' \<and> getPendingRepos st' = Inr ps
         \<and> target n st' = Some (r\<lparr> error := None, retry_count := 0 \<rparr>)
         \<and> r\<lparr> error := None, retry_count := 0 \<rparr> \<in> set ps))"
proof (intro conjI impI)
  assume c: "content st = Some repos"
  have eq: "is_pending = (\<lambda>r. \<not> transferred r \<and> \<not> processing r \<and> retry_count r < 3)"
    by (simp add: fun_eq_iff is_pending_def)
  show "\<exists>ps. getPendingRepos st = Inr ps
         \<and> ps = filter (\<lambda>r. \<not> transferred r \<and> \<not> processing r \<and> retry_count r < 3) repos
         \<and> subseq ps repos
         \<and> (\<forall>r. 3 \<le> retry_count r \<longrightarrow> r \<notin> set ps)"
    using c by (auto simp: getPendingRepos_def loadRepos_def eq)
next
  assume a: "content st = Some repos \<and> writable st \<and> target n st = Some r
        \<and> \<not> transferred r \<and> \<not> processing r"
  then obtain i where i: "findIndex (\<lambda>r. name r = n) repos = Some i" and r: "r = repos ! i"
    by (auto simp: target_def find_findIndex)
  let ?r' = "r\<lparr> error := None, retry_count := 0 \<rparr>"
  let ?st' = "st\<lparr> content := Some (repos[i := ?r']) \<rparr>"
  have upd: "update_record now (no_updates\<lparr> u_error := Some None, u_retry_count := Some 0 \<rparr>) r = ?r'"
    by (simp add: update_record_def object_assign_def no_updates_def)
  have ce: "clearError now n st = Inr ?st'"
    using a i r upd by (simp add: clearError_def updateRepoStatus_def loadRepos_def saveRepos_def)
  have len: "i < length repos" using i by (simp add: findIndex_SomeD)
  have "name ?r' = n" using findIndex_SomeD [OF i] r by simp
  then have "findIndex (\<lambda>r. name r = n) (repos[i := ?r']) = Some i"
    using i by (intro findIndex_update) simp_all
  then have t: "target n ?st' = Some ?r'"
    using len by (simp add: target_def find_findIndex)
  have "?r' \<in> set (repos[i := ?r'])" using len by (simp add: set_update_memI)
  moreover have "is_pending ?r'" using a by (simp add: is_pending_def)
  ultimately have "?r' \<in> set (filter is_pending (repos[i := ?r']))" by simp
  then have p: "getPendingRepos ?st' = Inr (filter is_pending (repos[i := ?r'])) \<and>
      ?r' \<in> set (filter is_pending (repos[i := ?r']))"
    by (simp add: getPendingRepos_def loadRepos_def)
  from ce t p show "\<exists>st' ps. clearError now n st = Inr st' \<and> getPendingRepos st' = Inr ps
         \<and> target n st' = Some ?r' \<and> ?r' \<in> set ps"
    by blast
qed

text \<open>
  The statement at a one-record table whose record has \<open>retry_count = 3\<close>: it is not
  pending, and it is pending again after \<^verbatim>\<open>clearError\<close>.
\<close>

theorem pending_repositories_witness:
  "content (store_of [example_repo]) = Some [example_repo]
   \<and> writable (store_of [example_repo])
   \<and> target ''alpha'' (store_of [example_repo]) = Some example_repo
   \<and> \<not> transferred example_repo \<and> \<not> processing example_repo
   \<and> retry_count example_repo = 3
   \<and> getPendingRepos (store_of [example_repo]) = Inr []
   \<and> (\<exists>st' ps. clearError 1000 ''alpha'' (store_of [example_repo]) = Inr st'
         \<and> getPendingRepos st' = Inr ps
         \<and> example_repo\<lparr> error := None, retry_count := 0 \<rparr> \<in> set ps)"
proof -
  have h: "content (store_of [example_repo]) = Some [example_repo]
   \<and> writable (store_of [example_repo])
   \<and> target ''alpha'' (store_of [example_repo]) = Some example_repo
   \<and> \<not> transferred example_repo \<and> \<not> processing example_repo"
    by (simp add: store_of_def example_repo_def target_def)
  have g: "retry_count example_repo = 3 \<and> getPendingRepos (store_of [example_repo]) = Inr []"
    by (simp add: store_of_def example_repo_def getPendingRepos_def loadRepos_def is_pending_def)
  from pending_repositories [of "store_of [example_repo]" "[example_repo]" "''alpha''"
      example_repo 1000] h
  have "\<exists>st' ps. clearError 1000 ''alpha'' (store_of [example_repo]) = Inr st'
         \<and> getPendingRepos st' = Inr ps
         \<and> example_repo\<lparr> error := None, retry_count := 0 \<rparr> \<in> set ps"
    by blast
  with h g show ?thesis by blast
qed

section \<open>Properties of the Size Threshold Utility\<close>


















section \<open>Properties of the scanners and the configuration resolver\<close>

lemma set_set_add [simp]: "set (set_add s x) = insert x (set s)"
  by (auto simp: set_add_def)

lemma distinct_set_add [simp]: "distinct s \<Longrightarrow> distinct (set_add s x)"
  by (simp add: set_add_def)

lemma set_set_add_all [simp]: "set (set_add_all s xs) = set s \<union> set xs"
  unfolding set_add_all_def by (induction xs arbitrary: s) auto

lemma distinct_set_add_all [simp]: "distinct s \<Longrightarrow> distinct (set_add_all s xs)"
  unfolding set_add_all_def by (induction xs arbitrary: s) auto

lemma scan_config_files_sets:
  "set (fst (scan_config_files repoPath w fs (a, b)))
     = set a \<union> {f \<in> set fs. fs_access w (length (trace w)) (path_join repoPath f)}
   \<and> set (snd (scan_config_files repoPath w fs (a, b)))
     = set b \<union> {f \<in> set fs. \<not> fs_access w (length (trace w)) (path_join repoPath f)}"
  unfolding scan_config_files_def
  by (induction fs arbitrary: a b) auto

lemma scan_config_patterns_mono:
  "set lfsFiles \<subseteq> set (scan_config_patterns repoPath w ps lfsFiles)"
  unfolding scan_config_patterns_def
  by (induction ps arbitrary: lfsFiles) (auto split: option.splits, force+)

lemma scan_configured_files:
  assumes "cfg_files c = Some fs"
  shows "{f \<in> set fs. fs_access w (length (trace w)) (path_join repoPath f)}
           \<subseteq> set (fst (scan_configured repoPath c w))"
    and "set (snd (scan_configured repoPath c w))
           = {f \<in> set fs. \<not> fs_access w (length (trace w)) (path_join repoPath f)}"
proof -
  obtain a b where ab: "scan_config_files repoPath w fs ([], []) = (a, b)"
    by (cases "scan_config_files repoPath w fs ([], [])")
  from scan_config_files_sets [of repoPath w fs "[]" "[]"] ab
  have a: "set a = {f \<in> set fs. fs_access w (length (trace w)) (path_join repoPath f)}"
    and b: "set b = {f \<in> set fs. \<not> fs_access w (length (trace w)) (path_join repoPath f)}"
    by simp_all
  have "set a \<subseteq> set (fst (scan_configured repoPath c w))"
    using scan_config_patterns_mono [of a repoPath w]
    by (auto simp: scan_configured_def assms ab Let_def split: option.splits)
  with a show "{f \<in> set fs. fs_access w (length (trace w)) (path_join repoPath f)}
           \<subseteq> set (fst (scan_configured repoPath c w))" by simp
  show "set (snd (scan_configured repoPath c w))
           = {f \<in> set fs. \<not> fs_access w (length (trace w)) (path_join repoPath f)}"
    using b by (simp add: scan_configured_def assms ab Let_def)
qed

lemma getLFSMode_config:
  "getLFSMode repoName w = (if getRepoLFSConfig repoName w = None then AutoDetect else Configured)"
  by (auto simp: getLFSMode_def hasLFSConfig_def getRepoLFSConfig_def split: option.splits)

lemma scanLFSFiles_unfold:
  "scanLFSFiles repoPath repoName w =
     (let cur = (case getRepoLFSConfig repoName w of
                   Some c \<Rightarrow> scan_configured repoPath c w
                 | None \<Rightarrow> (set_add_all [] (autoDetectLFSFiles repoPath w), []));
          hist = (case fst (detectLargeFilesInHistory repoPath w) of
                    Inl e \<Rightarrow> snd cur
                  | Inr hs \<Rightarrow> set_add_all (snd cur) hs)
      in (\<lparr> files = fst cur, historyFiles = hist, allFiles = set_add_all [] (fst cur @ hist),
            mode = getLFSMode repoName w, hasConfig = (getLFSMode repoName w = Configured) \<rparr>,
          snd (detectLargeFilesInHistory repoPath w)))"
  by (cases "getRepoLFSConfig repoName w")
     (auto simp: scanLFSFiles_def getLFSMode_config Let_def split_beta split: sum.splits prod.splits)

lemma parseSize_default: "parseSize getDefaultThreshold = Inr 52428800"
  by (simp add: getDefaultThreshold_def defaultThreshold_def parseSize_def match_size_def
      parseFloat_def units_def toUpperCase_def to_upper_def is_digit_def is_space_def
      digits_value_def digit_value_def Let_def char_of_eq_iff)

lemma foldl_large_set:
  "set (foldl (\<lambda>acc line. case large_in_line thr line of
        None \<Rightarrow> acc | Some filename \<Rightarrow> set_add acc filename) acc ls)
     = set acc \<union> {f. \<exists>line \<in> set ls. large_in_line thr line = Some f}"
  by (induction ls arbitrary: acc) (auto split: option.splits)

lemma scan_ls_tree_set:
  "set (scan_ls_tree thr out acc)
     = set acc \<union> {f. \<exists>line \<in> set (split_on CHR 0x0A [] (js_trim out)). large_in_line thr line = Some f}"
  unfolding scan_ls_tree_def by (rule foldl_large_set)

lemma scan_ls_tree_distinct: "distinct acc \<Longrightarrow> distinct (scan_ls_tree thr out acc)"
proof -
  have "distinct acc \<Longrightarrow> distinct (foldl (\<lambda>acc line. case large_in_line thr line of
        None \<Rightarrow> acc | Some filename \<Rightarrow> set_add acc filename) acc ls)" for ls
    by (induction ls arbitrary: acc) (auto split: option.splits)
  then show "distinct acc \<Longrightarrow> distinct (scan_ls_tree thr out acc)"
    by (simp add: scan_ls_tree_def)
qed

lemma execSync_simps:
  "fst (execSync c w) = exec_out w (length (trace w)) c"
  "snd (execSync c w) = w\<lparr> trace := trace w @ [Exec c] \<rparr>"
  by (simp_all add: execSync_def)

lemma scan_commits_spec:
  "\<exists>fs. scan_commits thr cs acc w = (fs, w\<lparr> trace := trace w @ map (\<lambda>c. Exec (LsTree c)) cs \<rparr>)
     \<and> (distinct acc \<longrightarrow> distinct fs)
     \<and> set fs = set acc \<union> {f. \<exists>i < length cs. \<exists>tree.
           exec_out w (length (trace w) + i) (LsTree (cs ! i)) = Inr tree
           \<and> (\<exists>line \<in> set (split_on CHR 0x0A [] (js_trim tree)). large_in_line thr line = Some f)}"
proof (induction cs arbitrary: acc w)
  case Nil
  show ?case by simp
next
  case (Cons c cs)
  let ?w' = "w\<lparr> trace := trace w @ [Exec (LsTree c)] \<rparr>"
  let ?hit = "\<lambda>(w::world) cs. {f. \<exists>i < length cs. \<exists>tree.
           exec_out w (length (trace w) + i) (LsTree (cs ! i)) = Inr tree
           \<and> (\<exists>line \<in> set (split_on CHR 0x0A [] (js_trim tree)). large_in_line thr line = Some f)}"
  have shift: "?hit w (c # cs) = {f. \<exists>tree. exec_out w (length (trace w)) (LsTree c) = Inr tree
           \<and> (\<exists>line \<in> set (split_on CHR 0x0A [] (js_trim tree)). large_in_line thr line = Some f)}
         \<union> ?hit ?w' cs"
    (is "?L = ?A \<union> ?B")
  proof (intro set_eqI iffI)
    fix f assume "f \<in> ?L"
    then obtain i tree where i: "i < length (c # cs)"
      and e: "exec_out w (length (trace w) + i) (LsTree ((c # cs) ! i)) = Inr tree"
      and l: "\<exists>line \<in> set (split_on CHR 0x0A [] (js_trim tree)). large_in_line thr line = Some f"
      by blast
    show "f \<in> ?A \<union> ?B"
    proof (cases i)
      case 0
      with e l show ?thesis by auto
    next
      case (Suc j)
      with i e l have "j < length cs \<and> exec_out ?w' (length (trace ?w') + j) (LsTree (cs ! j)) = Inr tree"
        by simp
      with l show ?thesis by blast
    qed
  next
    fix f assume "f \<in> ?A \<union> ?B"
    then show "f \<in> ?L"
    proof
      assume "f \<in> ?A"
      then obtain tree where "exec_out w (length (trace w) + 0) (LsTree ((c # cs) ! 0)) = Inr tree"
        and "\<exists>line \<in> set (split_on CHR 0x0A [] (js_trim tree)). large_in_line thr line = Some f"
        by auto
      then show ?thesis by (intro CollectI exI [of _ 0]) auto
    next
      assume "f \<in> ?B"
      then obtain j tree where j: "j < length cs"
        and e: "exec_out ?w' (length (trace ?w') + j) (LsTree (cs ! j)) = Inr tree"
        and l: "\<exists>line \<in> set (split_on CHR 0x0A [] (js_trim tree)). large_in_line thr line = Some f"
        by blast
      from j e have "Suc j < length (c # cs) \<and>
          exec_out w (length (trace w) + Suc j) (LsTree ((c # cs) ! Suc j)) = Inr tree"
        by simp
      with l show ?thesis by blast
    qed
  qed
  show ?case
  proof (cases "exec_out w (length (trace w)) (LsTree c)")
    case (Inl err)
    from Cons.IH [of acc ?w'] obtain fs where
      fs: "scan_commits thr cs acc ?w' = (fs, ?w'\<lparr> trace := trace ?w' @ map (\<lambda>c. Exec (LsTree c)) cs \<rparr>)"
        "distinct acc \<longrightarrow> distinct fs" "set fs = set acc \<union> ?hit ?w' cs"
      by blast
    have "?hit w (c # cs) = ?hit ?w' cs" using Inl unfolding shift by simp
    with fs Inl show ?thesis by (simp add: execSync_def)
  next
    case (Inr tree)
    let ?acc' = "scan_ls_tree thr tree acc"
    from Cons.IH [of ?acc' ?w'] obtain fs where
      fs: "scan_commits thr cs ?acc' ?w' = (fs, ?w'\<lparr> trace := trace ?w' @ map (\<lambda>c. Exec (LsTree c)) cs \<rparr>)"
        "distinct ?acc' \<longrightarrow> distinct fs" "set fs = set ?acc' \<union> ?hit ?w' cs"
      by blast
    have "set ?acc' \<union> ?hit ?w' cs = set acc \<union> ?hit w (c # cs)"
      unfolding shift using Inr by (auto simp: scan_ls_tree_set)
    with fs Inr show ?thesis by (simp add: execSync_def scan_ls_tree_distinct)
  qed
qed

lemma detect_unfold:
  "detectLargeFilesInHistory repoPath w =
     (let r = history_scan 52428800 repoPath w in
      case chdir (cwd w) (snd r) of Inl e \<Rightarrow> (Inl e, snd r) | Inr w2 \<Rightarrow> (Inr (fst r), w2))"
  by (simp add: detectLargeFilesInHistory_def parseSize_default Let_def split_beta)

lemma detect_spec:
  assumes "dirs w (cwd w)"
  shows "\<exists>fs evs. detectLargeFilesInHistory repoPath w = (Inr fs, w\<lparr> trace := trace w @ evs \<rparr>)
     \<and> distinct fs
     \<and> (\<forall>e \<in> set evs. e = Exec RevListAll \<or> (\<exists>c. e = Exec (LsTree c)))
     \<and> (\<not> dirs w repoPath \<longrightarrow> fs = [] \<and> evs = [])
     \<and> (dirs w repoPath \<longrightarrow>
          (case exec_out w (length (trace w)) RevListAll of
             Inl err \<Rightarrow> fs = [] \<and> evs = [Exec RevListAll]
           | Inr allCommits \<Rightarrow>
               evs = Exec RevListAll # map (\<lambda>c. Exec (LsTree c))
                       (take (min (length (rev_list_commits allCommits)) 50) (rev_list_commits allCommits))
               \<and> (\<forall>f. f \<in> set fs \<longleftrightarrow>
                    (\<exists>i < min (length (rev_list_commits allCommits)) 50. \<exists>tree.
                       exec_out w (length (trace w) + 1 + i) (LsTree (rev_list_commits allCommits ! i))
                         = Inr tree
                       \<and> (\<exists>line \<in> set (split_on CHR 0x0A [] (js_trim tree)).
                            large_in_line 52428800 line = Some f)))))"
proof (cases "dirs w repoPath")
  case False
  then have "detectLargeFilesInHistory repoPath w = (Inr [], w\<lparr> trace := trace w @ [] \<rparr>)"
    using assms by (simp add: detect_unfold history_scan_def chdir_def)
  with False show ?thesis by (intro exI [of _ "[]"]) simp
next
  case True
  let ?w1 = "w\<lparr> cwd := repoPath \<rparr>"
  let ?w2 = "?w1\<lparr> trace := trace ?w1 @ [Exec RevListAll] \<rparr>"
  show ?thesis
  proof (cases "exec_out w (length (trace w)) RevListAll")
    case (Inl err)
    then have "detectLargeFilesInHistory repoPath w
        = (Inr [], w\<lparr> trace := trace w @ [Exec RevListAll] \<rparr>)"
      using assms True by (simp add: detect_unfold history_scan_def chdir_def execSync_def)
    with True Inl show ?thesis
      by (intro exI [of _ "[]"] exI [of _ "[Exec RevListAll]"]) simp
  next
    case (Inr allCommits)
    let ?commits = "rev_list_commits allCommits"
    let ?n = "min (length ?commits) 50"
    let ?cs = "take ?n ?commits"
    from scan_commits_spec [of 52428800 ?cs "[]" ?w2] obtain fs where
      sc: "scan_commits 52428800 ?cs [] ?w2
             = (fs, ?w2\<lparr> trace := trace ?w2 @ map (\<lambda>c. Exec (LsTree c)) ?cs \<rparr>)"
      and d: "distinct fs"
      and m: "set fs = {f. \<exists>i < length ?cs. \<exists>tree.
           exec_out ?w2 (length (trace ?w2) + i) (LsTree (?cs ! i)) = Inr tree
           \<and> (\<exists>line \<in> set (split_on CHR 0x0A [] (js_trim tree)). large_in_line 52428800 line = Some f)}"
      by auto
    have hs: "history_scan 52428800 repoPath w
        = (fs, ?w2\<lparr> trace := trace ?w2 @ map (\<lambda>c. Exec (LsTree c)) ?cs \<rparr>)"
      using True Inr sc by (simp add: history_scan_def chdir_def execSync_def Let_def)
    have det: "detectLargeFilesInHistory repoPath w
        = (Inr fs, w\<lparr> trace := trace w @ Exec RevListAll # map (\<lambda>c. Exec (LsTree c)) ?cs \<rparr>)"
      using assms by (simp add: detect_unfold hs chdir_def)
    have len: "length ?cs = ?n" by simp
    have mem: "f \<in> set fs \<longleftrightarrow> (\<exists>i < ?n. \<exists>tree.
                       exec_out w (length (trace w) + 1 + i) (LsTree (?commits ! i)) = Inr tree
                       \<and> (\<exists>line \<in> set (split_on CHR 0x0A [] (js_trim tree)).
                            large_in_line 52428800 line = Some f))" for f
      unfolding m len by (simp add: add_ac cong: conj_cong)
    have evs: "\<forall>e \<in> set (Exec RevListAll # map (\<lambda>c. Exec (LsTree c)) ?cs).
        e = Exec RevListAll \<or> (\<exists>c. e = Exec (LsTree c))"
      by auto
    from det d evs mem True Inr show ?thesis
      by (intro exI [of _ fs] exI [of _ "Exec RevListAll # map (\<lambda>c. Exec (LsTree c)) ?cs"])
         simp
  qed
qed

text \<open>
  Claim C9. When the working directory of the process exists, the history scanner returns a
  duplicate-free list and leaves the state as it found it except for the commands it has
  run, which are \<^verbatim>\<open>git rev-list --all\<close> and \<^verbatim>\<open>git ls-tree -r -l\<close> only: nothing that writes
  to the repository. It lists the trees of the first \<open>min(total, 50)\<close> revisions and no
  others. A path is in the result exactly when some line of a tree that could be listed
  carries it with a size above the threshold of 52428800 bytes; a revision whose tree cannot
  be listed contributes nothing and does not stop the scan.
\<close>

theorem history_scanner:
  assumes "dirs w (cwd w)"
  shows "\<exists>fs evs. detectLargeFilesInHistory repoPath w = (Inr fs, w\<lparr> trace := trace w @ evs \<rparr>)
     \<and> distinct fs
     \<and> (\<forall>e \<in> set evs. e = Exec RevListAll \<or> (\<exists>c. e = Exec (LsTree c)))
     \<and> (\<not> dirs w repoPath \<longrightarrow> fs = [] \<and> evs = [])
     \<and> (dirs w repoPath \<longrightarrow>
          (case exec_out w (length (trace w)) RevListAll of
             Inl err \<Rightarrow> fs = [] \<and> evs = [Exec RevListAll]
           | Inr allCommits \<Rightarrow>
               evs = Exec RevListAll # map (\<lambda>c. Exec (LsTree c))
                       (take (min (length (rev_list_commits allCommits)) 50) (rev_list_commits allCommits))
               \<and> (\<forall>f. f \<in> set fs \<longleftrightarrow>
                    (\<exists>i < min (length (rev_list_commits allCommits)) 50. \<exists>tree.
                       exec_out w (length (trace w) + 1 + i) (LsTree (rev_list_commits allCommits ! i))
                         = Inr tree
                       \<and> (\<exists>line \<in> set (split_on CHR 0x0A [] (js_trim tree)).
                            large_in_line 52428800 line = Some f)))))"
  using assms by (rule detect_spec)

lemmas js_eval = js_trim_def js_parseInt_def is_digit_def is_space_def digits_value_def
  digit_value_def Let_def

lemma ex_lines1: "rev_list_commits example_rev_list = [''c1'', ''c2'', ''c3'']"
  by (simp add: rev_list_commits_def example_rev_list_def js_eval)

lemma ex_tree1: "scan_ls_tree 52428800 example_tree1 [] = [''big file.bin'']"
  by (simp add: scan_ls_tree_def large_in_line_def set_add_def example_tree1_def js_eval)

lemma ex_tree3: "scan_ls_tree 52428800 example_tree3 [''big file.bin'']
    = [''big file.bin'', ''old.bin'']"
  by (simp add: scan_ls_tree_def large_in_line_def set_add_def example_tree3_def js_eval)

lemma example_history_gen:
  assumes "exec_out w = example_exec" "dirs w ''/tmp/r''" "dirs w (cwd w)"
  shows "detectLargeFilesInHistory ''/tmp/r'' w
     = (Inr [''big file.bin'', ''old.bin''],
        w\<lparr> trace := trace w @ [Exec RevListAll, Exec (LsTree ''c1''), Exec (LsTree ''c2''),
                                   Exec (LsTree ''c3'')] \<rparr>)"
  using assms
  by (simp add: detect_unfold history_scan_def chdir_def execSync_def
      example_exec_def ex_lines1 ex_tree1 ex_tree3 Let_def)

lemma example_world_simps:
  "exec_out example_world = example_exec" "dirs example_world ''/tmp/r''"
  "dirs example_world ''/app''" "cwd example_world = ''/app''" "trace example_world = []"
  "settings example_world = Some example_settings"
  "fs_access example_world = (\<lambda>t p. p = ''/tmp/r/here.bin'')"
  "glob_files example_world = (\<lambda>d. Some [''a.txt'', ''here.bin''])"
  "stat_size example_world = (\<lambda>p. if p = ''/tmp/r/here.bin'' then Some 83886080 else Some 10)"
  "write_ok example_world = (\<lambda>p. True)" "tempDir example_world = ''/tmp''"
  by (simp_all add: example_world_def)

lemma example_history:
  "detectLargeFilesInHistory ''/tmp/r'' example_world
     = (Inr [''big file.bin'', ''old.bin''],
        example_world\<lparr> trace := [Exec RevListAll, Exec (LsTree ''c1''), Exec (LsTree ''c2''),
                                   Exec (LsTree ''c3'')] \<rparr>)"
  using example_history_gen [of example_world] by (simp add: example_world_simps)

text \<open>
  The statement in the example environment: the tree of \<open>c2\<close> cannot be listed, the files
  found in \<open>c1\<close> and \<open>c3\<close> are returned, the file of exactly 52428800 bytes is not.
\<close>

theorem history_scanner_witness:
  "dirs example_world (cwd example_world)
   \<and> detectLargeFilesInHistory ''/tmp/r'' example_world
     = (Inr [''big file.bin'', ''old.bin''],
        example_world\<lparr> trace := trace example_world @
           [Exec RevListAll, Exec (LsTree ''c1''), Exec (LsTree ''c2''), Exec (LsTree ''c3'')] \<rparr>)
   \<and> distinct [''big file.bin'', ''old.bin'']"
  using history_scanner [of example_world "''/tmp/r''"] example_history
  by (simp add: example_world_simps)







lemma example_config_r_gen:
  "settings w = Some example_settings \<Longrightarrow>
   getRepoLFSConfig ''r'' w
     = Some \<lparr> cfg_files = Some [''here.bin'', ''gone.bin''], cfg_patterns = None,
              cfg_autoDetect = False \<rparr>"
  by (simp add: getRepoLFSConfig_def example_settings_def)



lemma example_config_r:
  "getRepoLFSConfig ''r'' example_world
     = Some \<lparr> cfg_files = Some [''here.bin'', ''gone.bin''], cfg_patterns = None,
              cfg_autoDetect = False \<rparr>"
  by (rule example_config_r_gen) (simp add: example_world_simps)



text \<open>
  Claim C8. For a repository with a configuration entry, the resolver returns a result (it
  has no failing branch), and every path of the entry's \<open>files\<close> list is kept: a path that
  cannot be accessed in the working tree is among the history files (and so among all files)
  of the result, a path that can be accessed is among the current files.
\<close>

theorem configured_files_classified:
  "getRepoLFSConfig repoName w = Some c \<and> cfg_files c = Some fs \<and> f \<in> set fs \<longrightarrow>
     (if fs_access w (length (trace w)) (path_join repoPath f)
      then f \<in> set (files (fst (scanLFSFiles repoPath repoName w)))
      else f \<in> set (historyFiles (fst (scanLFSFiles repoPath repoName w)))
         \<and> f \<in> set (allFiles (fst (scanLFSFiles repoPath repoName w))))"
proof (intro impI)
  assume a: "getRepoLFSConfig repoName w = Some c \<and> cfg_files c = Some fs \<and> f \<in> set fs"
  then have cf: "cfg_files c = Some fs" by simp
  note sc = scan_configured_files [OF cf, where w = w and repoPath = repoPath]
  show "if fs_access w (length (trace w)) (path_join repoPath f)
      then f \<in> set (files (fst (scanLFSFiles repoPath repoName w)))
      else f \<in> set (historyFiles (fst (scanLFSFiles repoPath repoName w)))
         \<and> f \<in> set (allFiles (fst (scanLFSFiles repoPath repoName w)))"
  proof (cases "fs_access w (length (trace w)) (path_join repoPath f)")
    case True
    with a sc(1) have "f \<in> set (fst (scan_configured repoPath c w))" by auto
    with a True show ?thesis by (simp add: scanLFSFiles_unfold Let_def)
  next
    case False
    with a sc(2) have "f \<in> set (snd (scan_configured repoPath c w))" by auto
    with a False show ?thesis
      by (auto simp: scanLFSFiles_unfold Let_def split: sum.splits)
  qed
qed

text \<open>The statement in the example environment: \<^verbatim>\<open>here.bin\<close> exists, \<^verbatim>\<open>gone.bin\<close> does not.\<close>

theorem configured_files_classified_witness:
  "getRepoLFSConfig ''r'' example_world
     = Some \<lparr> cfg_files = Some [''here.bin'', ''gone.bin''], cfg_patterns = None,
              cfg_autoDetect = False \<rparr>
   \<and> \<not> fs_access example_world (length (trace example_world)) (path_join ''/tmp/r'' ''gone.bin'')
   \<and> fs_access example_world (length (trace example_world)) (path_join ''/tmp/r'' ''here.bin'')
   \<and> ''gone.bin'' \<in> set (historyFiles (fst (scanLFSFiles ''/tmp/r'' ''r'' example_world)))
   \<and> ''here.bin'' \<in> set (files (fst (scanLFSFiles ''/tmp/r'' ''r'' example_world)))"
  using configured_files_classified [of "''r''" example_world
      "\<lparr> cfg_files = Some [''here.bin'', ''gone.bin''], cfg_patterns = None, cfg_autoDetect = False \<rparr>"
      "[''here.bin'', ''gone.bin'']" "''gone.bin''" "''/tmp/r''"]
    configured_files_classified [of "''r''" example_world
      "\<lparr> cfg_files = Some [''here.bin'', ''gone.bin''], cfg_patterns = None, cfg_autoDetect = False \<rparr>"
      "[''here.bin'', ''gone.bin'']" "''here.bin''" "''/tmp/r''"]
  by (simp add: example_config_r)
     (simp add: example_world_simps path_join_def)

section \<open>Properties of the migration set-up\<close>

lemma stepped_refl [simp]: "stepped P w w"
  by (simp add: stepped_def)

lemma stepped_trans: "stepped P w w1 \<Longrightarrow> stepped P w1 w2 \<Longrightarrow> stepped P w w2"
  by (auto simp: stepped_def)

lemma stepped_mono: "stepped P w w' \<Longrightarrow> (\<And>e. P e \<Longrightarrow> Q e) \<Longrightarrow> stepped Q w w'"
  by (auto simp: stepped_def list_all_iff)

lemma stepped_event: "P e \<Longrightarrow> stepped P w (w\<lparr> trace := trace w @ [e] \<rparr>)"
  by (simp add: stepped_def)

lemma stepped_cwd: "stepped P w w' \<Longrightarrow> stepped P w (w'\<lparr> cwd := p \<rparr>)"
  by (simp add: stepped_def)

lemma stepped_settings: "stepped P w w' \<Longrightarrow> stepped P w (w'\<lparr> settings := s \<rparr>)"
  by (simp add: stepped_def)

lemma stepped_execSync: "P (Exec c) \<Longrightarrow> stepped P w (snd (execSync c w))"
  by (simp add: execSync_def stepped_event)

lemma stepped_chdir: "chdir p w = Inr w' \<Longrightarrow> stepped P w w'"
  by (auto simp: chdir_def stepped_def split: if_splits)

lemma stepped_loadSettings: "stepped P w (loadSettings w)"
  by (simp add: loadSettings_def stepped_def split: option.splits)

lemma stepped_writeFile: "writeFile p t w = Inr w' \<Longrightarrow> P (WriteFile p t) \<Longrightarrow> stepped P w w'"
  by (auto simp: writeFile_def stepped_def split: if_splits)

lemma stepped_exec_all: "list_all (\<lambda>c. P (Exec c)) cs \<Longrightarrow> stepped P w (snd (exec_all cs w))"
proof (induction cs arbitrary: w)
  case Nil
  show ?case by simp
next
  case (Cons c cs)
  then have 1: "stepped P w (snd (execSync c w))" by (simp add: stepped_execSync)
  from Cons have 2: "stepped P (snd (execSync c w)) (snd (exec_all cs (snd (execSync c w))))" by simp
  show ?case
    using 1 stepped_trans [OF 1 2] by (simp add: split_beta split: sum.splits)
qed

lemma stepped_foldl:
  assumes "\<And>w x. x \<in> set xs \<Longrightarrow> stepped P w (f w x)"
  shows "stepped P w (foldl f w xs)"
  using assms
proof (induction xs arbitrary: w)
  case Nil
  show ?case by simp
next
  case (Cons x xs)
  have "stepped P w (f w x)" using Cons.prems by simp
  moreover have "stepped P (f w x) (foldl f (f w x) xs)" using Cons by simp
  ultimately show ?case by (simp add: stepped_trans)
qed

lemma stepped_scan_commits: "stepped quiet w (snd (scan_commits thr cs acc w))"
proof (induction cs arbitrary: acc w)
  case Nil
  show ?case by simp
next
  case (Cons c cs)
  have 1: "stepped quiet w (snd (execSync (LsTree c) w))" by (simp add: stepped_execSync)
  show ?case
    using stepped_trans [OF 1 Cons.IH] by (simp add: split_beta split: sum.splits)
qed

lemma stepped_history_scan: "stepped quiet w (snd (history_scan thr repoPath w))"
proof (cases "chdir repoPath w")
  case (Inl e)
  then show ?thesis by (simp add: history_scan_def)
next
  case (Inr w1)
  have 1: "stepped quiet w w1" using Inr by (rule stepped_chdir)
  have 2: "stepped quiet w1 (snd (execSync RevListAll w1))" by (simp add: stepped_execSync)
  note 12 = stepped_trans [OF 1 2]
  show ?thesis
    using 12 stepped_trans [OF 12 stepped_scan_commits]
    by (simp add: history_scan_def Inr split_beta Let_def split: sum.splits)
qed

lemma stepped_detect: "stepped quiet w (snd (detectLargeFilesInHistory repoPath w))"
proof -
  have "stepped quiet w (snd (history_scan thr repoPath w))" for thr by (rule stepped_history_scan)
  then show ?thesis
    by (auto simp: detectLargeFilesInHistory_def Let_def split_beta
        split: sum.splits intro: stepped_trans stepped_chdir)
qed

lemma stepped_scanLFSFiles: "stepped quiet w (snd (scanLFSFiles repoPath repoName w))"
  using stepped_detect [of w repoPath]
  by (simp add: scanLFSFiles_def Let_def split_beta)

lemma stepped_track_all: "stepped quiet w (track_all fs w)"
  unfolding track_all_def by (rule stepped_foldl) (simp add: stepped_execSync)

lemma stepped_commit_gitattributes: "stepped quiet w (commit_gitattributes w)"
proof -
  have 1: "stepped quiet w (snd (exec_all [AddGitattributes, CommitGitattributes] w))"
    by (rule stepped_exec_all) simp
  have 2: "stepped quiet w' (snd (exec_all [ResetSoftHead, AddGitattributes] w'))" for w'
    by (rule stepped_exec_all) simp
  show ?thesis
    using 1 stepped_trans [OF 1 2]
    by (simp add: commit_gitattributes_def split_beta split: sum.splits)
qed

lemma stepped_force_convert: "stepped quiet w (force_convert file w)"
  unfolding force_convert_def by (rule stepped_exec_all) simp

lemma stepped_verify_pointer: "stepped quiet w (verify_pointer file w)"
proof -
  have 1: "stepped quiet w (snd (execSync LfsLsFiles w))" by (simp add: stepped_execSync)
  show ?thesis
    using 1 stepped_trans [OF 1 stepped_force_convert]
    by (simp add: verify_pointer_def split_beta split: sum.splits)
qed

lemma stepped_reprocess_file: "stepped quiet w (reprocess_file repoPath file w)"
proof -
  let ?w1 = "snd (exec_all [RmCached file, LfsTrackList, AddFile file] w)"
  have 1: "stepped quiet w ?w1" by (rule stepped_exec_all) simp
  have 2: "stepped quiet ?w1 (verify_pointer file ?w1)" by (rule stepped_verify_pointer)
  have 3: "stepped quiet (verify_pointer file ?w1)
      (snd (execSync (LsFilesStage file) (verify_pointer file ?w1)))"
    by (simp add: stepped_execSync)
  show ?thesis
    using 1 stepped_trans [OF stepped_trans [OF 1 2] 3]
    by (simp add: reprocess_file_def split_beta split: sum.splits)
qed

lemma stepped_reprocess_all: "stepped quiet w (reprocess_all repoPath fs w)"
  unfolding reprocess_all_def by (rule stepped_foldl) (rule stepped_reprocess_file)

lemma migrations_stepped: "stepped quiet w w' \<Longrightarrow> migrations w' = migrations w"
  by (auto simp: stepped_def migrations_def list_all_iff filter_empty_conv)

lemma threshold_MB: "js_parseInt (replace_first ''MB'' [] getDefaultThreshold) = Some 50"
  by (simp add: getDefaultThreshold_def defaultThreshold_def js_parseInt_def is_space_def
      is_digit_def digits_value_def digit_value_def Let_def)

lemma migrate_command_expected:
  "expected_rewrite scan = (case migrate_command scan of None \<Rightarrow> [] | Some c \<Rightarrow> [Exec c])
   \<and> (\<forall>c. migrate_command scan = Some c \<longrightarrow> is_migrate (Exec c))"
  by (simp add: expected_rewrite_def migrate_command_def threshold_MB)

lemma run_migrate_spec:
  assumes "allFiles scan \<noteq> []"
  shows "stepped (\<lambda>e. True) w (snd (run_migrate scan w))
       \<and> migrations (snd (run_migrate scan w)) = migrations w @ expected_rewrite scan"
proof -
  have ls: "stepped (\<lambda>e. True) w' (snd (execSync LfsLsFiles w'))
      \<and> migrations (snd (execSync LfsLsFiles w')) = migrations w'" for w'
    by (simp add: execSync_def migrations_def stepped_def)
  define first where "first = (case migrate_command scan of
                 Some c \<Rightarrow> execSync c w
               | None \<Rightarrow> (Inr [], w))"
  have f: "stepped (\<lambda>e. True) w (snd first) \<and> migrations (snd first) = migrations w @ expected_rewrite scan"
    using migrate_command_expected [of scan]
    by (cases "migrate_command scan") (simp_all add: first_def execSync_def migrations_def stepped_def)
  have rm: "snd (run_migrate scan w)
      = (case fst first of Inl e \<Rightarrow> snd first | Inr out \<Rightarrow> snd (execSync LfsLsFiles (snd first)))"
    using assms unfolding run_migrate_def first_def [symmetric]
    by (simp add: split_beta Let_def split: sum.splits)
  show ?thesis
  proof (cases "fst first")
    case (Inl e)
    with f rm show ?thesis by simp
  next
    case (Inr out)
    with rm have "snd (run_migrate scan w) = snd (execSync LfsLsFiles (snd first))" by simp
    with f ls [of "snd first"] show ?thesis
      by (auto intro: stepped_trans)
  qed
qed

lemma stepped_quiet_any: "stepped quiet w w' \<Longrightarrow> stepped (\<lambda>e. True) w w'"
  by (erule stepped_mono) simp

lemma allFiles_empty:
  "allFiles (fst (scanLFSFiles repoPath repoName w)) = [] \<longleftrightarrow>
     files (fst (scanLFSFiles repoPath repoName w)) = []
     \<and> historyFiles (fst (scanLFSFiles repoPath repoName w)) = []"
proof -
  have "set (allFiles (fst (scanLFSFiles repoPath repoName w)))
      = set (files (fst (scanLFSFiles repoPath repoName w)))
        \<union> set (historyFiles (fst (scanLFSFiles repoPath repoName w)))"
    by (simp add: scanLFSFiles_unfold Let_def)
  then show ?thesis
    by (metis Un_empty set_empty)
qed

lemma setupLFS_try_spec:
  fixes repoPath repoName w
  defines "w2 \<equiv> (if settings w = None then loadSettings (w\<lparr> cwd := repoPath \<rparr>)
                  else w\<lparr> cwd := repoPath \<rparr>)"
  defines "scan \<equiv> fst (scanLFSFiles repoPath repoName w2)"
  shows "stepped (\<lambda>e. True) w (snd (setupLFS_try repoPath repoName w))"
    and "dirs w repoPath \<Longrightarrow> write_ok w (path_join repoPath ''.gitattributes'') \<Longrightarrow>
         migrations (snd (setupLFS_try repoPath repoName w)) = migrations w @ expected_rewrite scan"
    and "dirs w repoPath \<Longrightarrow> \<not> write_ok w (path_join repoPath ''.gitattributes'') \<Longrightarrow>
         migrations (snd (setupLFS_try repoPath repoName w)) = migrations w"
    and "\<not> dirs w repoPath \<Longrightarrow> snd (setupLFS_try repoPath repoName w) = w"
proof -
  show nd: "\<not> dirs w repoPath \<Longrightarrow> snd (setupLFS_try repoPath repoName w) = w"
    by (simp add: setupLFS_try_def chdir_def)
  define w3 where "w3 = snd (scanLFSFiles repoPath repoName w2)"
  define w4 where "w4 = snd (execSync LfsInstall w3)"
  define w5 where "w5 = w4\<lparr> trace := trace w4 @ [WriteFile (path_join repoPath ''.gitattributes'')
      (generateGitAttributes (allFiles scan))] \<rparr>"
  define w6 where "w6 = commit_gitattributes (track_all (allFiles scan) w5)"
  define w7 where "w7 = snd (run_migrate scan w6)"
  define w8 where "w8 = snd (execSync LfsLsFiles (reprocess_all repoPath (files scan) w7))"
  have r2: "stepped quiet w w2"
    by (simp add: w2_def stepped_def loadSettings_def split: option.splits)
  have r3: "stepped quiet w w3"
    unfolding w3_def by (rule stepped_trans [OF r2 stepped_scanLFSFiles])
  have r4: "stepped quiet w w4"
    unfolding w4_def by (rule stepped_trans [OF r3]) (simp add: stepped_execSync)
  have r5: "stepped quiet w w5"
    unfolding w5_def by (rule stepped_trans [OF r4]) (simp add: stepped_event)
  have r6: "stepped quiet w w6"
    unfolding w6_def
    by (rule stepped_trans [OF r5], rule stepped_trans [OF stepped_track_all stepped_commit_gitattributes])
  have r78: "stepped quiet w7 w8"
    unfolding w8_def
    by (rule stepped_trans [OF stepped_reprocess_all], rule stepped_execSync) simp
  have wo: "write_ok w4 = write_ok w" using r4 by (simp add: stepped_def)
  have sc: "scanLFSFiles repoPath repoName w2 = (scan, w3)"
    by (simp add: scan_def w3_def)
  have unfold_ok: "snd (setupLFS_try repoPath repoName w)
      = (if allFiles scan = [] then w3
         else if \<not> write_ok w (path_join repoPath ''.gitattributes'') then w4
         else (case fst (run_migrate scan w6) of Some m \<Rightarrow> w7 | None \<Rightarrow> w8))"
    if "dirs w repoPath"
    using that
    by (simp add: setupLFS_try_def chdir_def w2_def [symmetric] sc Let_def writeFile_def wo
        w4_def [symmetric] w5_def [symmetric] w6_def [symmetric] w7_def w8_def
        split_beta split: option.splits sum.splits)
  show "stepped (\<lambda>e. True) w (snd (setupLFS_try repoPath repoName w))"
  proof (cases "dirs w repoPath")
    case False
    then show ?thesis by (simp add: nd)
  next
    case True
    have r7: "stepped (\<lambda>e. True) w w7"
    proof (cases "allFiles scan = []")
      case True
      then show ?thesis using r6 by (simp add: w7_def run_migrate_def stepped_quiet_any)
    next
      case False
      from run_migrate_spec [OF False, of w6] have "stepped (\<lambda>e. True) w6 w7" by (simp add: w7_def)
      with r6 show ?thesis by (blast intro: stepped_trans stepped_quiet_any)
    qed
    have r8: "stepped (\<lambda>e. True) w w8" using r7 r78 by (blast intro: stepped_trans stepped_quiet_any)
    show ?thesis
      using r3 r4 r7 r8
      by (simp add: unfold_ok [OF True] stepped_quiet_any split: option.splits)
  qed
  show "migrations (snd (setupLFS_try repoPath repoName w)) = migrations w"
    if "dirs w repoPath" "\<not> write_ok w (path_join repoPath ''.gitattributes'')"
    using that r3 r4 by (simp add: unfold_ok migrations_stepped)
  show "migrations (snd (setupLFS_try repoPath repoName w)) = migrations w @ expected_rewrite scan"
    if d: "dirs w repoPath" and wr: "write_ok w (path_join repoPath ''.gitattributes'')"
  proof (cases "allFiles scan = []")
    case True
    then have "expected_rewrite scan = []"
      using allFiles_empty [of repoPath repoName w2]
      by (simp add: scan_def expected_rewrite_def)
    with True r3 d show ?thesis by (simp add: unfold_ok migrations_stepped)
  next
    case False
    from run_migrate_spec [OF False, of w6]
    have m7: "migrations w7 = migrations w @ expected_rewrite scan"
      using r6 by (simp add: w7_def migrations_stepped)
    have m8: "migrations w8 = migrations w @ expected_rewrite scan"
      using r78 m7 by (simp add: migrations_stepped)
    show ?thesis
      using False d wr m7 m8 by (simp add: unfold_ok split: option.splits)
  qed
qed

lemma setupLFS_world:
  "snd (setupLFS repoPath repoName w)
     = (case chdir (cwd w) (snd (setupLFS_try repoPath repoName w)) of
          Inl e \<Rightarrow> snd (setupLFS_try repoPath repoName w)
        | Inr w2 \<Rightarrow> w2)"
  by (simp add: setupLFS_def Let_def split_beta split: sum.splits)



text \<open>
  Claim C10. When the working directory of the process exists, each of the four functions
  that change it leaves it as it found it, whether the function returns or throws (the
  outcome is the first component of the result and is not constrained).
\<close>

theorem cwd_restored:
  assumes "dirs w (cwd w)"
  shows "cwd (snd (detectLargeFilesInHistory repoPath w)) = cwd w
       \<and> cwd (snd (setupLFS repoPath repoName w)) = cwd w
       \<and> cwd (snd (getExistingLFSFiles repoPath w)) = cwd w
       \<and> cwd (snd (pushToGitHub repoName branchName lfsInfo w)) = cwd w"
proof (intro conjI)
  have restore: "cwd (case chdir (cwd w) w1 of Inl e \<Rightarrow> w1 | Inr w2 \<Rightarrow> w2) = cwd w"
    if "dirs w1 = dirs w" for w1
    using that assms by (simp add: chdir_def)
  have "dirs (snd (history_scan thr repoPath w)) = dirs w" for thr
    using stepped_history_scan [of w thr repoPath] by (simp add: stepped_def)
  then show "cwd (snd (detectLargeFilesInHistory repoPath w)) = cwd w"
    using assms by (simp add: detect_unfold chdir_def Let_def)
  have "dirs (snd (setupLFS_try repoPath repoName w)) = dirs w"
    using setupLFS_try_spec(1) [of w repoPath repoName] by (simp add: stepped_def)
  then show "cwd (snd (setupLFS repoPath repoName w)) = cwd w"
    by (simp add: setupLFS_world restore)
  show "cwd (snd (getExistingLFSFiles repoPath w)) = cwd w"
    using assms
    by (simp add: getExistingLFSFiles_def chdir_def execSync_def Let_def split: sum.splits)
  have "dirs (snd (exec_all cs w')) = dirs w'" for cs w'
    using stepped_exec_all [of "\<lambda>e. True" cs w'] by (simp add: stepped_def list_all_iff)
  then show "cwd (snd (pushToGitHub repoName branchName lfsInfo w)) = cwd w"
    using assms
    by (simp add: pushToGitHub_def chdir_def Let_def split_beta del: exec_all.simps
        split: sum.splits)
qed



lemma variant_world_simps:
  "exec_out recent_world = (\<lambda>t c. Inr [])" "dirs recent_world = dirs example_world"
  "cwd recent_world = ''/app''" "trace recent_world = []"
  "settings recent_world = Some example_settings"
  "glob_files recent_world = (\<lambda>d. Some [''a.txt'', ''here.bin''])"
  "stat_size recent_world = stat_size example_world"
  "write_ok recent_world = (\<lambda>p. True)"
  "exec_out plain_world = (\<lambda>t c. Inr [])" "dirs plain_world = dirs example_world"
  "cwd plain_world = ''/app''" "trace plain_world = []"
  "settings plain_world = Some example_settings"
  "glob_files plain_world = (\<lambda>d. Some [''a.txt''])"
  "stat_size plain_world = stat_size example_world"
  "write_ok plain_world = (\<lambda>p. True)"
  "exec_out broken_world = (\<lambda>t c. Inl ''fatal'')" "dirs broken_world = dirs example_world"
  "cwd broken_world = ''/app''" "trace broken_world = []" "tempDir broken_world = ''/tmp''"
  by (simp_all add: recent_world_def plain_world_def broken_world_def example_world_simps)


lemma broken_push:
  "fst (pushToGitHub ''r'' ''master'' example_info broken_world)
     = Inl (Error ''Push failed r: fatal'')"
  by (simp add: pushToGitHub_def getRepoPath_def path_join_def chdir_def execSync_def
      variant_world_simps example_world_simps Let_def)

text \<open>
  The statement in the example environment, and in the one where every command fails, so
  that \<^verbatim>\<open>pushToGitHub\<close> throws.
\<close>

theorem cwd_restored_witness:
  "dirs example_world (cwd example_world)
   \<and> cwd example_world = ''/app''
   \<and> cwd (snd (detectLargeFilesInHistory ''/tmp/r'' example_world)) = ''/app''
   \<and> cwd (snd (setupLFS ''/tmp/r'' ''r'' example_world)) = ''/app''
   \<and> cwd (snd (getExistingLFSFiles ''/tmp/r'' example_world)) = ''/app''
   \<and> cwd (snd (pushToGitHub ''r'' ''master'' example_info example_world)) = ''/app''
   \<and> dirs broken_world (cwd broken_world)
   \<and> fst (pushToGitHub ''r'' ''master'' example_info broken_world)
       = Inl (Error ''Push failed r: fatal'')
   \<and> cwd (snd (pushToGitHub ''r'' ''master'' example_info broken_world)) = ''/app''"
  using cwd_restored [of example_world "''/tmp/r''" "''r''" "''master''" example_info]
    cwd_restored [of broken_world "''/tmp/r''" "''r''" "''master''" example_info]
  by (simp add: example_world_simps variant_world_simps broken_push)


end
